theory Spec2Isabelle
  imports Complex_Main "HOL-Library.AList"
begin

section \<open>Idle tomography core (idtcore.py)\<close>

subsection \<open>Data model and errors\<close>

text \<open>
  Operations are represented by native strings with one letter per qubit.  An
  NQPauliState carries such a string together with a parallel list of signs; an
  NQPauliOp and an NQOutcome are represented by their string alone.  Every raise and
  every failing assert of the source is a value of the type error.
\<close>

datatype error =
    AssertionError
  | ValueError
  | NotImplementedError
  | KeyError
  | IndexError
  | ZeroDivisionError
  | NameError string

record NQPauliState =
  rep :: string
  signs :: "int list"

type_synonym NQPauliOp = string
type_synonym NQOutcome = string

text \<open>Sequencing of fallible steps: the first error raised is the one that propagates.\<close>

definition ebind :: "error + 'a \<Rightarrow> ('a \<Rightarrow> error + 'b) \<Rightarrow> error + 'b" where
  "ebind m f = (case m of Inl e \<Rightarrow> Inl e | Inr v \<Rightarrow> f v)"

text \<open>A list comprehension whose element expression may raise.\<close>

fun collect :: "('a \<Rightarrow> error + 'b) \<Rightarrow> 'a list \<Rightarrow> error + 'b list" where
  "collect f [] = Inr []"
| "collect f (x # xs) =
     (case f x of
        Inl e \<Rightarrow> Inl e
      | Inr v \<Rightarrow> (case collect f xs of Inl e \<Rightarrow> Inl e | Inr vs \<Rightarrow> Inr (v # vs)))"

subsection \<open>Jacobian element functions\<close>

text \<open>
  stochastic\_outcome.  The commutation test \_commute\_parity of the Pauli algebra
  module is a parameter; the loop runs over the zip of the five sequences, so it stops
  at the shortest one.
\<close>

fun stochastic_outcome_loop ::
  "(char \<Rightarrow> char \<Rightarrow> int) \<Rightarrow> string \<Rightarrow> (int \<times> char \<times> int \<times> char \<times> char) list \<Rightarrow> error + NQOutcome" where
  "stochastic_outcome_loop commute_parity outcome_str [] = Inr outcome_str"
| "stochastic_outcome_loop commute_parity outcome_str ((s1, P1, s2, P2, Err) # rest) =
     (if P1 \<noteq> P2 then Inl AssertionError
      else let P = P1 in
        if commute_parity P Err = 1
        then stochastic_outcome_loop commute_parity
               (outcome_str @ (if s1 = s2 then ''0'' else ''1'')) rest
        else stochastic_outcome_loop commute_parity
               (outcome_str @ (if s1 = s2 then ''1'' else ''0'')) rest)"

definition stochastic_outcome ::
  "(char \<Rightarrow> char \<Rightarrow> int) \<Rightarrow> NQPauliState \<Rightarrow> NQPauliOp \<Rightarrow> NQPauliState \<Rightarrow> error + NQOutcome" where
  "stochastic_outcome commute_parity prep err meas =
     stochastic_outcome_loop commute_parity ''''
       (zip (signs prep) (zip (rep prep) (zip (signs meas) (zip (rep meas) err))))"

definition stochastic_jac_element ::
  "(char \<Rightarrow> char \<Rightarrow> int) \<Rightarrow> NQPauliState \<Rightarrow> NQPauliOp \<Rightarrow> NQPauliState \<Rightarrow> NQOutcome \<Rightarrow> error + int" where
  "stochastic_jac_element commute_parity prep err meas outcome =
     ebind (stochastic_outcome commute_parity prep err meas)
       (\<lambda>out. Inr (if out = outcome then 1 else 0))"

text \<open>
  numpy's prod of a list of integers.  The list becomes an array of 64-bit signed
  integers and the product is taken in that type, so it wraps around: the result is the
  exact product reduced modulo 2^64 into the range from -2^63 to 2^63 - 1.
\<close>

definition np_prod :: "int list \<Rightarrow> int" where
  "np_prod vs = (prod_list vs + 2 ^ 63) mod 2 ^ 64 - 2 ^ 63"

text \<open>affine\_jac\_element and its per-qubit helper.\<close>

definition affhelper :: "int \<Rightarrow> char \<Rightarrow> char \<Rightarrow> int \<Rightarrow> char \<Rightarrow> char \<Rightarrow> error + int" where
  "affhelper prepSign prepBasis errP measSign measBasis outcome_bit =
     (if prepBasis \<notin> set ''XYZ'' then Inl AssertionError
      else if measBasis \<notin> set ''XYZ'' then Inl AssertionError
      else if prepBasis \<noteq> measBasis then Inl AssertionError
      else let outsign = (if outcome_bit = CHR ''0'' then 1 else - 1 :: int) in
        if errP = CHR ''I'' then
          (if prepBasis = measBasis
           then Inr (if prepSign * measSign * outsign = 1 then 1 else 0)
           else Inr 1)
        else if measBasis \<noteq> errP then Inr 0
        else if outcome_bit = CHR ''0'' then Inr measSign
        else Inr (measSign * - 1))"

definition affine_jac_element ::
  "NQPauliState \<Rightarrow> NQPauliOp \<Rightarrow> NQPauliState \<Rightarrow> NQOutcome \<Rightarrow> error + int" where
  "affine_jac_element prep err meas outcome =
     ebind (collect (\<lambda>(s1, P1, s2, P2, Err, o'). affhelper s1 P1 Err s2 P2 o')
             (zip (signs prep) (zip (rep prep) (zip (signs meas) (zip (rep meas) (zip err outcome))))))
       (\<lambda>vs. Inr (np_prod vs))"

text \<open>affine\_jac\_obs\_element and its per-qubit helper.\<close>

definition affhelper_obs :: "int \<Rightarrow> char \<Rightarrow> char \<Rightarrow> int \<Rightarrow> char \<Rightarrow> char \<Rightarrow> error + int" where
  "affhelper_obs prepSign prepBasis errP measSign measBasis obsP =
     (if prepBasis \<notin> set ''XYZ'' then Inl AssertionError
      else if measBasis \<notin> set ''XYZ'' then Inl AssertionError
      else if obsP = CHR ''I'' then Inr (if errP = CHR ''I'' then 1 else 0)
      else if errP = CHR ''I'' then Inr (if prepBasis = obsP then prepSign else 0)
      else Inr (if obsP = errP then 2 else 0))"

definition affine_jac_obs_element ::
  "NQPauliState \<Rightarrow> NQPauliOp \<Rightarrow> NQPauliState \<Rightarrow> NQPauliOp \<Rightarrow> error + int" where
  "affine_jac_obs_element prep err meas observable =
     ebind (collect (\<lambda>(s1, P1, s2, P2, Err, o'). affhelper_obs s1 P1 Err s2 P2 o')
             (zip (signs prep) (zip (rep prep) (zip (signs meas) (zip (rep meas) (zip err observable))))))
       (\<lambda>vs. Inr (np_prod vs))"

text \<open>
  hamiltonian\_jac\_element.  The half commutator icommutatorOver2 (None when it is
  the zero operator) and the dot product statedot belong to the Pauli algebra module
  and are parameters.
\<close>

definition hamiltonian_jac_element ::
  "(NQPauliOp \<Rightarrow> NQPauliOp \<Rightarrow> 'op option) \<Rightarrow> ('op \<Rightarrow> NQPauliState \<Rightarrow> int) \<Rightarrow>
     NQPauliState \<Rightarrow> NQPauliOp \<Rightarrow> NQPauliOp \<Rightarrow> int" where
  "hamiltonian_jac_element icommutatorOver2 statedot Prep Error Observable =
     (let com = icommutatorOver2 Error Observable
      in case com of None \<Rightarrow> 0 | Some c \<Rightarrow> statedot c Prep)"

text \<open>
  A specification-level helper used to state sign-flip properties: the state with the
  sign of qubit i negated.
\<close>

definition flip_sign :: "nat \<Rightarrow> NQPauliState \<Rightarrow> NQPauliState" where
  "flip_sign i st = st\<lparr>signs := (signs st)[i := - (signs st ! i)]\<rparr>"

subsection \<open>Fiducial pair generation\<close>

text \<open>
  The preferred signs are a tuple of strings; conv turns a plus into 1 and anything else
  into -1.  The dictionaries of the source are association lists read with lookup, which
  raises KeyError on a missing key.
\<close>

definition conv :: "string \<Rightarrow> int" where
  "conv x = (if x = ''+'' then 1 else - 1)"

definition base_signs :: "string list \<Rightarrow> (char \<times> int) list" where
  "base_signs preferred_basis_signs = zip ''XYZ'' (map conv preferred_basis_signs)"

definition lookup :: "('k \<times> 'v) list \<Rightarrow> 'k \<Rightarrow> error + 'v" where
  "lookup d k = (case map_of d k of None \<Rightarrow> Inl KeyError | Some v \<Rightarrow> Inr v)"

text \<open>The sign-flip patterns of the stochastic (and affine) templates.\<close>

definition sto_flips :: "int \<Rightarrow> bool \<Rightarrow> error + int list list" where
  "sto_flips maxweight include_affine =
     (if include_affine then
        (if maxweight = 1 then Inr [[1], [- 1]]
         else if maxweight = 2 then Inr [[1, 1], [1, - 1], [- 1, 1]]
         else Inl NotImplementedError)
      else Inr [replicate (nat maxweight) 1])"

text \<open>itertools.product(letters, repeat=n): a negative repeat count is a ValueError.\<close>

definition product_repeat :: "'a list \<Rightarrow> int \<Rightarrow> error + 'a list list" where
  "product_repeat letters n =
     (if n < 0 then Inl ValueError else Inr (product_lists (replicate (nat n) letters)))"

definition sto_tmpl_pair ::
  "(char \<times> int) list \<Rightarrow> (char \<times> int) list \<Rightarrow> int list \<Rightarrow> string \<Rightarrow>
     error + (NQPauliState \<times> NQPauliState)" where
  "sto_tmpl_pair base_prep_signs base_meas_signs fliptup basisLets =
     ebind (collect (\<lambda>(f, l). ebind (lookup base_prep_signs l) (\<lambda>s. Inr (f * s))) (zip fliptup basisLets))
       (\<lambda>prepSigns.
     ebind (collect (\<lambda>(f, l). ebind (lookup base_meas_signs l) (\<lambda>s. Inr (f * s))) (zip fliptup basisLets))
       (\<lambda>measSigns.
     Inr (\<lparr>rep = basisLets, signs = prepSigns\<rparr>, \<lparr>rep = basisLets, signs = measSigns\<rparr>)))"

definition sto_tmpl_pairs ::
  "(char \<times> int) list \<Rightarrow> (char \<times> int) list \<Rightarrow> int \<Rightarrow> int list list \<Rightarrow>
     error + (NQPauliState \<times> NQPauliState) list" where
  "sto_tmpl_pairs base_prep_signs base_meas_signs maxweight flips =
     ebind (collect (\<lambda>fliptup.
              ebind (product_repeat ''XYZ'' maxweight)
                (collect (sto_tmpl_pair base_prep_signs base_meas_signs fliptup)))
            flips)
       (\<lambda>pairs. Inr (concat pairs))"

text \<open>
  The Hamiltonian templates: cyclic predecessor for the prep, successor for the meas.
  The inner functions prev and next of the source are prev\_str and next\_str.
\<close>

definition nextPauli :: "(char \<times> char) list" where
  "nextPauli = [(CHR ''X'', CHR ''Y''), (CHR ''Y'', CHR ''Z''), (CHR ''Z'', CHR ''X'')]"

definition prevPauli :: "(char \<times> char) list" where
  "prevPauli = [(CHR ''X'', CHR ''Z''), (CHR ''Y'', CHR ''X''), (CHR ''Z'', CHR ''Y'')]"

definition prev_str :: "string \<Rightarrow> error + string" where
  "prev_str expt = collect (lookup prevPauli) expt"

definition next_str :: "string \<Rightarrow> error + string" where
  "next_str expt = collect (lookup nextPauli) expt"

definition ham_tmpl_pair ::
  "(char \<times> int) list \<Rightarrow> (char \<times> int) list \<Rightarrow> int \<Rightarrow> string \<Rightarrow>
     error + (NQPauliState \<times> NQPauliState)" where
  "ham_tmpl_pair base_prep_signs base_meas_signs maxweight tmplLets =
     (if int (length tmplLets) \<noteq> maxweight then Inl AssertionError
      else
        ebind (prev_str tmplLets) (\<lambda>prepLets.
        ebind (next_str tmplLets) (\<lambda>measLets.
        ebind (collect (lookup base_prep_signs) prepLets) (\<lambda>prepSigns.
        ebind (collect (lookup base_meas_signs) measLets) (\<lambda>measSigns.
        Inr (\<lparr>rep = prepLets, signs = prepSigns\<rparr>, \<lparr>rep = measLets, signs = measSigns\<rparr>))))))"

definition ham_tmpl_pairs ::
  "(char \<times> int) list \<Rightarrow> (char \<times> int) list \<Rightarrow> int \<Rightarrow> string list \<Rightarrow>
     error + (NQPauliState \<times> NQPauliState) list" where
  "ham_tmpl_pairs base_prep_signs base_meas_signs maxweight ham_tmpl =
     collect (ham_tmpl_pair base_prep_signs base_meas_signs maxweight) ham_tmpl"

text \<open>
  idle\_tomography\_fidpairs.  The tiling function tile\_pauli\_fidpairs of the tools
  module is the parameter tile.
\<close>

definition idle_tomography_fidpairs ::
  "((NQPauliState \<times> NQPauliState) list \<Rightarrow> int \<Rightarrow> int \<Rightarrow> (NQPauliState \<times> NQPauliState) list) \<Rightarrow>
     int \<Rightarrow> int \<Rightarrow> bool \<Rightarrow> bool \<Rightarrow> bool \<Rightarrow> string list \<Rightarrow> string list \<Rightarrow> string list \<Rightarrow>
     error + (NQPauliState \<times> NQPauliState) list" where
  "idle_tomography_fidpairs tile nQubits maxweight include_hamiltonian include_stochastic
       include_affine ham_tmpl preferred_prep_basis_signs preferred_meas_basis_signs =
     (let base_prep_signs = base_signs preferred_prep_basis_signs;
          base_meas_signs = base_signs preferred_meas_basis_signs
      in
      ebind (if include_stochastic then
               ebind (sto_flips maxweight include_affine) (\<lambda>flips.
               ebind (sto_tmpl_pairs base_prep_signs base_meas_signs maxweight flips) (\<lambda>sto_tmpl_pairs.
               Inr (tile sto_tmpl_pairs nQubits maxweight)))
             else if include_affine then Inl ValueError
             else Inr [])
        (\<lambda>fidpairs.
           if include_hamiltonian then
             ebind (ham_tmpl_pairs base_prep_signs base_meas_signs maxweight ham_tmpl) (\<lambda>ham_tmpl_pairs.
             Inr (fidpairs @ tile ham_tmpl_pairs nQubits maxweight))
           else Inr fidpairs))"

text \<open>
  A specification-level helper: the preferred sign of a basis letter, read off the tuple
  of preferred signs (X first, then Y, then Z).
\<close>

definition preferred_sign :: "string list \<Rightarrow> char \<Rightarrow> int" where
  "preferred_sign preferred_basis_signs l =
     (if l = CHR ''X'' then conv (preferred_basis_signs ! 0)
      else if l = CHR ''Y'' then conv (preferred_basis_signs ! 1)
      else conv (preferred_basis_signs ! 2))"

subsection \<open>Observed error rates\<close>

text \<open>
  A gate string is a list of gate names and a Pauli dictionary maps keys such as +X or
  -Y to tuples of gate names.  A dataset maps gate strings to rows; a row has its
  outcome counts (a dictionary keyed by outcome strings, here an association list) and
  its total.  Floating point numbers are modelled by real numbers.  The translation
  to\_gatestring of the Pauli objects module and numpy's polyfit (which returns the
  coefficients with the highest power first) are parameters.
\<close>

type_synonym GateString = "string list"
type_synonym pauliDict = "(string \<times> string list) list"

record dsrow =
  counts :: "(string \<times> real) list"
  total :: real

type_synonym dataset = "GateString \<Rightarrow> dsrow option"

text \<open>
  The dictionary returned by the two rate functions, with one field for each of its keys
  rate, fitOrder, fitCoeffs, data and weights.
\<close>

record rate_info =
  info_rate :: real
  info_fitOrder :: int
  info_fitCoeffs :: "real list"
  info_data :: "real list"
  info_weights :: "real list"

text \<open>Indexing a sequence by a non-negative index; out of range is an IndexError.\<close>

definition index :: "'a list \<Rightarrow> nat \<Rightarrow> error + 'a" where
  "index xs i = (if i < length xs then Inr (xs ! i) else Inl IndexError)"

text \<open>Division of Python numbers.\<close>

definition divide_py :: "real \<Rightarrow> real \<Rightarrow> error + real" where
  "divide_py a b = (if b = 0 then Inl ZeroDivisionError else Inr (a / b))"

text \<open>dict.get with a default value.\<close>

definition get :: "('k \<times> 'v) list \<Rightarrow> 'k \<Rightarrow> 'v \<Rightarrow> 'v" where
  "get d k dflt = (case map_of d k of None \<Rightarrow> dflt | Some v \<Rightarrow> v)"

definition idle_circuit :: "GateString \<Rightarrow> GateString \<Rightarrow> int \<Rightarrow> GateString \<Rightarrow> GateString" where
  "idle_circuit prepFid GiStr L measFid = prepFid @ concat (replicate (nat L) GiStr) @ measFid"

text \<open>get\_obs\_stochastic\_err\_rate: the inner function freq\_and\_weight.\<close>

definition freq_and_weight :: "dataset \<Rightarrow> GateString \<Rightarrow> NQOutcome \<Rightarrow> error + (real \<times> real)" where
  "freq_and_weight ds gatestring outcome =
     (case ds gatestring of
        None \<Rightarrow> Inl KeyError
      | Some drow \<Rightarrow>
          (let cnts = counts drow;
               total = sum_list (map snd cnts)
           in ebind (divide_py (get cnts outcome 0) total) (\<lambda>f.
              ebind (divide_py (get cnts outcome 0 + 1) (total + 2)) (\<lambda>fp.
              let wt = sqrt total / sqrt (\<bar>fp * (1 - fp)\<bar>)
              in Inr (f, wt)))))"

text \<open>The loop that gathers the data to fit and the weights, one point per length.\<close>

definition stochastic_data_to_fit ::
  "dataset \<Rightarrow> GateString \<Rightarrow> GateString \<Rightarrow> GateString \<Rightarrow> NQOutcome \<Rightarrow> int list \<Rightarrow>
     error + (real \<times> real) list" where
  "stochastic_data_to_fit ds prepFid measFid GiStr outcome maxLengths =
     collect (\<lambda>L. freq_and_weight ds (idle_circuit prepFid GiStr L measFid) outcome) maxLengths"

definition get_obs_stochastic_err_rate ::
  "(real list \<Rightarrow> real list \<Rightarrow> int \<Rightarrow> real list \<Rightarrow> error + real list) \<Rightarrow>
   (NQPauliState \<Rightarrow> pauliDict \<Rightarrow> GateString) \<Rightarrow>
   dataset \<Rightarrow> NQPauliState \<times> NQPauliState \<Rightarrow> pauliDict \<times> pauliDict \<Rightarrow> GateString \<Rightarrow>
   NQOutcome \<Rightarrow> int list \<Rightarrow> int \<Rightarrow> error + rate_info" where
  "get_obs_stochastic_err_rate polyfit to_gatestring ds pauli_fidpair pauliDicts GiStr outcome
       maxLengths fitOrder =
     (let (pauli_prep, pauli_meas) = pauli_fidpair;
          (prepDict, measDict) = pauliDicts;
          prepFid = to_gatestring pauli_prep prepDict;
          measFid = to_gatestring pauli_meas measDict
      in
      ebind (stochastic_data_to_fit ds prepFid measFid GiStr outcome maxLengths) (\<lambda>pts.
      let data_to_fit = map fst pts; wts = map snd pts in
      ebind (polyfit (map real_of_int maxLengths) data_to_fit fitOrder wts) (\<lambda>coeffs.
      ebind (if fitOrder = 1 then index coeffs 0
             else if fitOrder = 2 then
               ebind (index coeffs 1) (\<lambda>c1.
               ebind (index coeffs 2) (\<lambda>c2.
               ebind (index coeffs 0) (\<lambda>c0.
               let det = c1 ^ 2 - 4 * c2 * c0
               in Inr (if det \<ge> 0 then - sgn c0 * sqrt det else c1))))
             else Inl NotImplementedError) (\<lambda>slope.
      Inr \<lparr>info_rate = slope, info_fitOrder = fitOrder, info_fitCoeffs = coeffs,
           info_data = data_to_fit, info_weights = wts\<rparr>))))"

text \<open>get\_obs\_hamiltonian\_err\_rate: the inner function unsigned\_exptn\_and\_weight.\<close>

definition unsigned_exptn_and_weight ::
  "dataset \<Rightarrow> GateString \<Rightarrow> nat list \<Rightarrow> error + (real \<times> real)" where
  "unsigned_exptn_and_weight ds gatestring observed_indices =
     (case ds gatestring of
        None \<Rightarrow> Inl KeyError
      | Some drow \<Rightarrow>
          ebind
            (if length observed_indices = 1 then
               (let i = observed_indices ! 0 in
                ebind (collect (\<lambda>(outcome, cnt).
                         ebind (index outcome i) (\<lambda>b. Inr (b = CHR ''0'', cnt))) (counts drow))
                  (\<lambda>cs.
                let cnt0 = sum_list (map snd (filter fst cs));
                    cnt1 = sum_list (map snd (filter (\<lambda>c. \<not> fst c) cs))
                in ebind (divide_py (cnt0 - cnt1) (total drow)) (\<lambda>exptn.
                   ebind (divide_py (0.5 * (cnt0 - cnt1 + 1)) (total drow + 2)) (\<lambda>q.
                   Inr (exptn, 0.5 + q)))))
             else if length observed_indices = 2 then
               (let i = observed_indices ! 0; j = observed_indices ! 1 in
                ebind (collect (\<lambda>(outcome, cnt).
                         ebind (index outcome i) (\<lambda>bi.
                         ebind (index outcome j) (\<lambda>bj. Inr (bi = bj, cnt)))) (counts drow))
                  (\<lambda>cs.
                let cnt_even = sum_list (map snd (filter fst cs));
                    cnt_odd = sum_list (map snd (filter (\<lambda>c. \<not> fst c) cs))
                in ebind (divide_py (cnt_even - cnt_odd) (total drow)) (\<lambda>exptn.
                   ebind (divide_py (0.5 * (cnt_even - cnt_odd + 1)) (total drow + 2)) (\<lambda>q.
                   Inr (exptn, 0.5 + q)))))
             else Inl NotImplementedError)
            (\<lambda>(exptn, fp).
               let wt = sqrt (total drow) / sqrt (fp * (1 - fp))
               in Inr (exptn, wt)))"

definition hamiltonian_data_to_fit ::
  "dataset \<Rightarrow> GateString \<Rightarrow> GateString \<Rightarrow> GateString \<Rightarrow> nat list \<Rightarrow> int \<Rightarrow> int list \<Rightarrow>
     error + (real \<times> real) list" where
  "hamiltonian_data_to_fit ds prepFid measFid GiStr obs_indices minus_sign maxLengths =
     collect (\<lambda>L.
         ebind (unsigned_exptn_and_weight ds (idle_circuit prepFid GiStr L measFid) obs_indices)
           (\<lambda>(exptn, wt). Inr (real_of_int minus_sign * exptn, wt)))
       maxLengths"

definition get_obs_hamiltonian_err_rate ::
  "(real list \<Rightarrow> real list \<Rightarrow> int \<Rightarrow> real list \<Rightarrow> error + real list) \<Rightarrow>
   (NQPauliState \<Rightarrow> pauliDict \<Rightarrow> GateString) \<Rightarrow>
   dataset \<Rightarrow> NQPauliState \<times> NQPauliState \<Rightarrow> pauliDict \<times> pauliDict \<Rightarrow> GateString \<Rightarrow>
   NQPauliOp \<Rightarrow> int list \<Rightarrow> int \<Rightarrow> error + rate_info" where
  "get_obs_hamiltonian_err_rate polyfit to_gatestring ds pauli_fidpair pauliDicts GiStr observable
       maxLengths fitOrder =
     (let (pauli_prep, pauli_meas) = pauli_fidpair;
          (prepDict, measDict) = pauliDicts;
          prepFid = to_gatestring pauli_prep prepDict;
          measFid = to_gatestring pauli_meas measDict;
          obs_indices = filter (\<lambda>i. observable ! i \<noteq> CHR ''I'') [0..<length observable]
      in
      ebind (collect (index (signs pauli_meas)) obs_indices) (\<lambda>ss.
      let minus_sign = np_prod ss in
      ebind (hamiltonian_data_to_fit ds prepFid measFid GiStr obs_indices minus_sign maxLengths) (\<lambda>pts.
      let data_to_fit = map fst pts; wts = map snd pts in
      ebind (polyfit (map real_of_int maxLengths) data_to_fit fitOrder wts) (\<lambda>coeffs.
      ebind (if fitOrder = 1 then index coeffs 0
             else if fitOrder = 2 then
               ebind (index coeffs 1) (\<lambda>c1.
               ebind (index coeffs 2) (\<lambda>c2.
               ebind (index coeffs 0) (\<lambda>c0.
               let det = c1 ^ 2 - 4 * c2 * c0
               in Inr (if det \<ge> 0 then - sgn c0 * sqrt det else c1))))
             else Inl NotImplementedError) (\<lambda>slope.
      Inr \<lparr>info_rate = slope, info_fitOrder = fitOrder, info_fitCoeffs = coeffs,
           info_data = data_to_fit, info_weights = wts\<rparr>)))))"

text \<open>
  An example dataset for a single qubit with idle gate Gi and empty fiducials: the
  circuits with 1, 2 and 3 idle gates, 16 samples each, of which 3, 8 and 15 gave the
  outcome 1.
\<close>

definition example_dataset :: dataset where
  "example_dataset g =
     (if g = [''Gi''] then Some \<lparr>counts = [(''0'', 13), (''1'', 3)], total = 16\<rparr>
      else if g = [''Gi'', ''Gi''] then Some \<lparr>counts = [(''0'', 8), (''1'', 8)], total = 16\<rparr>
      else if g = [''Gi'', ''Gi'', ''Gi''] then Some \<lparr>counts = [(''0'', 1), (''1'', 15)], total = 16\<rparr>
      else None)"

subsection \<open>Running idle tomography\<close>

text \<open>
  The functions of other modules and of numpy that do\_idle\_tomography calls are
  gathered in a record of parameters: the Pauli algebra (\_commute\_parity,
  icommutatorOver2, statedot), the tools module (tile\_pauli\_fidpairs, allerrors,
  alloutcomes, allobservables), to\_gatestring, and numpy's polyfit, matrix\_rank and
  pinv.  The model is the run without a communicator (comm is None), where the indices
  are not distributed and gathering is the identity; logging and timing are left out.
\<close>

record 'op externals =
  ext_commute_parity :: "char \<Rightarrow> char \<Rightarrow> int"
  ext_icommutatorOver2 :: "NQPauliOp \<Rightarrow> NQPauliOp \<Rightarrow> 'op option"
  ext_statedot :: "'op \<Rightarrow> NQPauliState \<Rightarrow> int"
  ext_tile_pauli_fidpairs ::
    "(NQPauliState \<times> NQPauliState) list \<Rightarrow> int \<Rightarrow> int \<Rightarrow> (NQPauliState \<times> NQPauliState) list"
  ext_allerrors :: "int \<Rightarrow> int \<Rightarrow> NQPauliOp list"
  ext_alloutcomes :: "NQPauliState \<Rightarrow> NQPauliState \<Rightarrow> int \<Rightarrow> NQOutcome list"
  ext_allobservables :: "NQPauliState \<Rightarrow> int \<Rightarrow> NQPauliOp list"
  ext_to_gatestring :: "NQPauliState \<Rightarrow> pauliDict \<Rightarrow> GateString"
  ext_polyfit :: "real list \<Rightarrow> real list \<Rightarrow> int \<Rightarrow> real list \<Rightarrow> error + real list"
  ext_matrix_rank :: "real list list \<Rightarrow> nat"
  ext_pinv :: "real list list \<Rightarrow> real list list"

text \<open>
  The dictionary advancedOptions, with one optional field for each key that is read:
  jacobian mode, preferred\_prep\_basis\_signs, preferred\_meas\_basis\_signs (None stands
  for auto), pauli\_fidpairs, fit order and ham\_tmpl.
\<close>

record advancedOptions =
  opt_jacobian_mode :: "string option"
  opt_preferred_prep_basis_signs :: "string list option"
  opt_preferred_meas_basis_signs :: "string list option"
  opt_pauli_fidpairs :: "(NQPauliState \<times> NQPauliState) list option"
  opt_fit_order :: "int option"
  opt_ham_tmpl :: "string list option"

text \<open>An observed-rate dictionary after its Jacobian rows have been stored in it.\<close>

record row_info = rate_info +
  info_jacobian_row :: "int list"
  info_affine_jacobian_row :: "int list option"

text \<open>The IdleTomographyResults object that is returned.\<close>

record results =
  res_dataset :: dataset
  res_maxLengths :: "int list"
  res_maxErrWeight :: int
  res_fitOrder :: int
  res_errors :: "NQPauliOp list"
  res_intrinsic_rates :: "(string \<times> real list) list"
  res_pauli_fidpair_dict :: "(string \<times> (NQPauliState \<times> NQPauliState) list) list"
  res_observed_rate_infos :: "(string \<times> (string \<times> row_info) list list) list"

text \<open>The local variables of do\_idle\_tomography that the stages read and write.\<close>

record locals =
  intrinsic_rates :: "(string \<times> real list) list"
  pauli_fidpair_dict :: "(string \<times> (NQPauliState \<times> NQPauliState) list) list"
  observed_rate_infos :: "(string \<times> (string \<times> row_info) list list) list"
  sto_aff_jac :: "real list list option"
  sto_aff_obs_err_rates :: "real list option"
  ham_aff_jac :: "real list list option"
  ham_aff_obs_err_rates :: "real list option"

text \<open>
  Global names of the module: the names bound by its import statements and by its
  function definitions.  Reading any other global name is a NameError.
\<close>

definition module_globals :: "string list" where
  "module_globals =
     [''_np'', ''_itertools'', ''_time'', ''_collections'', ''_objs'', ''_tools'',
      ''_VerbosityPrinter'', ''_pobjs'', ''_idttools'', ''_IdleTomographyResults'',
      ''hamiltonian_jac_element'', ''stochastic_outcome'', ''stochastic_jac_element'',
      ''affine_jac_element'', ''affine_jac_obs_element'', ''idle_tomography_fidpairs'',
      ''preferred_signs_from_paulidict'', ''fidpairs_to_pauli_fidpairs'',
      ''make_idle_tomography_list'', ''get_obs_stochastic_err_rate'',
      ''get_obs_hamiltonian_err_rate'', ''do_idle_tomography'']"

definition global_name :: "string \<Rightarrow> error + unit" where
  "global_name n = (if n \<in> set module_globals then Inr () else Inl (NameError n))"

text \<open>preferred\_signs\_from\_paulidict.\<close>

definition preferred_sign_of_letter :: "pauliDict \<Rightarrow> char \<Rightarrow> error + string" where
  "preferred_sign_of_letter pauliDict letter =
     (let plusKey = (if map_of pauliDict (''+'' @ [letter]) \<noteq> None then Some (''+'' @ [letter])
                     else if map_of pauliDict [letter] \<noteq> None then Some [letter]
                     else None);
          minusKey = (if map_of pauliDict (''-'' @ [letter]) \<noteq> None then Some (''-'' @ [letter])
                      else None)
      in case (minusKey, plusKey) of
           (Some mk, Some pk) \<Rightarrow>
             (if length (get pauliDict pk []) \<le> length (get pauliDict mk [])
              then Inr ''+'' else Inr ''-'')
         | (None, Some pk) \<Rightarrow> Inr ''+''
         | (Some mk, None) \<Rightarrow> Inr ''-''
         | (None, None) \<Rightarrow> Inl ValueError)"

definition preferred_signs_from_paulidict :: "pauliDict \<Rightarrow> error + string list" where
  "preferred_signs_from_paulidict pauliDict = collect (preferred_sign_of_letter pauliDict) ''XYZ''"

text \<open>
  Matrices are lists of rows.  shape1 is J.shape[1], which does not exist for the empty
  array; dot is the product of a matrix and a vector, a ValueError when the shapes are
  not aligned.
\<close>

definition shape1 :: "'a list list \<Rightarrow> error + nat" where
  "shape1 J = (case J of [] \<Rightarrow> Inl IndexError | r # _ \<Rightarrow> Inr (length r))"

definition dot :: "real list list \<Rightarrow> real list \<Rightarrow> error + real list" where
  "dot M v =
     (if \<forall>r \<in> set M. length r = length v
      then Inr (map (\<lambda>r. sum_list (map2 (*) r v)) M)
      else Inl ValueError)"

text \<open>The rank test before each pseudo-inversion, with its call of \_warnings.warn.\<close>

definition warn_if_rank_deficient :: "nat \<Rightarrow> nat \<Rightarrow> error + unit" where
  "warn_if_rank_deficient rank ncols =
     (if rank < ncols then global_name ''_warnings'' else Inr ())"

definition pinv_rates :: "'op externals \<Rightarrow> real list list \<Rightarrow> real list \<Rightarrow> error + real list" where
  "pinv_rates ext J obs_err_rates =
     (let rank = ext_matrix_rank ext J in
      ebind (shape1 J) (\<lambda>ncols.
      ebind (warn_if_rank_deficient rank ncols) (\<lambda>_.
      let invJ = ext_pinv ext J in
      dot invJ obs_err_rates)))"

definition obs_rates_of :: "(string \<times> row_info) list list \<Rightarrow> real list" where
  "obs_rates_of infos_by_fidpair = concat (map (map (info_rate \<circ> snd)) infos_by_fidpair)"

definition infos_dict :: "(string \<times> int list \<times> row_info) list \<Rightarrow> (string \<times> row_info) list" where
  "infos_dict rs = foldl (\<lambda>d (k, Jrow, info). AList.update k info d) [] rs"

definition with_rows :: "rate_info \<Rightarrow> int list \<Rightarrow> int list option \<Rightarrow> row_info" where
  "with_rows info Jrow Jaff_row =
     \<lparr>info_rate = info_rate info, info_fitOrder = info_fitOrder info,
      info_fitCoeffs = info_fitCoeffs info, info_data = info_data info,
      info_weights = info_weights info,
      info_jacobian_row = Jrow, info_affine_jacobian_row = Jaff_row\<rparr>"

text \<open>
  The stochastic/affine stage.  A Jacobian row has the stochastic elements of all errors,
  followed by the affine elements of all errors when affine rates are extracted.
\<close>

definition sto_jac_row ::
  "'op externals \<Rightarrow> bool \<Rightarrow> NQPauliOp list \<Rightarrow> NQPauliState \<times> NQPauliState \<Rightarrow> NQOutcome \<Rightarrow>
     error + int list" where
  "sto_jac_row ext extract_affine errors pauli_fidpair out =
     ebind (collect (\<lambda>err. stochastic_jac_element (ext_commute_parity ext)
                              (fst pauli_fidpair) err (snd pauli_fidpair) out) errors)
       (\<lambda>Jrow.
          if extract_affine then
            ebind (collect (\<lambda>err. affine_jac_element (fst pauli_fidpair) err (snd pauli_fidpair) out)
                     errors)
              (\<lambda>aff. Inr (Jrow @ aff))
          else Inr Jrow)"

definition sto_fidpair_rows ::
  "'op externals \<Rightarrow> dataset \<Rightarrow> int list \<Rightarrow> pauliDict \<times> pauliDict \<Rightarrow> int \<Rightarrow> GateString \<Rightarrow> bool \<Rightarrow>
     NQPauliOp list \<Rightarrow> int \<Rightarrow> NQPauliState \<times> NQPauliState \<Rightarrow>
     error + (string \<times> int list \<times> row_info) list" where
  "sto_fidpair_rows ext ds maxLengths pauliDicts maxErrWeight GiStr extract_affine errors fitOrder
       pauli_fidpair =
     collect (\<lambda>out.
         ebind (sto_jac_row ext extract_affine errors pauli_fidpair out) (\<lambda>Jrow.
         ebind (get_obs_stochastic_err_rate (ext_polyfit ext) (ext_to_gatestring ext) ds
                  pauli_fidpair pauliDicts GiStr out maxLengths fitOrder) (\<lambda>info.
         Inr (out, Jrow, with_rows info Jrow None))))
       (ext_alloutcomes ext (fst pauli_fidpair) (snd pauli_fidpair) maxErrWeight)"

definition sto_collect ::
  "'op externals \<Rightarrow> dataset \<Rightarrow> int list \<Rightarrow> pauliDict \<times> pauliDict \<Rightarrow> int \<Rightarrow> GateString \<Rightarrow> bool \<Rightarrow>
     NQPauliOp list \<Rightarrow> int \<Rightarrow> (NQPauliState \<times> NQPauliState) list \<Rightarrow>
     error + (int list list \<times> (string \<times> row_info) list list)" where
  "sto_collect ext ds maxLengths pauliDicts maxErrWeight GiStr extract_affine errors fitOrder
       pauli_fidpairs =
     ebind (collect (sto_fidpair_rows ext ds maxLengths pauliDicts maxErrWeight GiStr extract_affine
                       errors fitOrder) pauli_fidpairs)
       (\<lambda>per_fidpair.
          Inr (concat (map (map (fst \<circ> snd)) per_fidpair), map infos_dict per_fidpair))"

definition store ::
  "string \<Rightarrow> (NQPauliState \<times> NQPauliState) list \<Rightarrow> (string \<times> row_info) list list \<Rightarrow> locals \<Rightarrow> locals" where
  "store key pauli_fidpairs infos_by_fidpair loc =
     loc\<lparr>pauli_fidpair_dict := AList.update key pauli_fidpairs (pauli_fidpair_dict loc),
         observed_rate_infos := AList.update key infos_by_fidpair (observed_rate_infos loc)\<rparr>"

definition stochastic_stage ::
  "'op externals \<Rightarrow> int \<Rightarrow> dataset \<Rightarrow> int list \<Rightarrow> pauliDict \<times> pauliDict \<Rightarrow> int \<Rightarrow> GateString \<Rightarrow>
     bool \<Rightarrow> advancedOptions \<Rightarrow> string \<Rightarrow> string list \<Rightarrow> string list \<Rightarrow>
     (NQPauliState \<times> NQPauliState) list \<Rightarrow> NQPauliOp list \<Rightarrow> int \<Rightarrow> locals \<Rightarrow> error + locals" where
  "stochastic_stage ext nQubits ds maxLengths pauliDicts maxErrWeight GiStr extract_affine
       opts jacmode preferred_prep_basis_signs preferred_meas_basis_signs same_basis_fidpairs
       errors fitOrder loc =
     ebind (case opt_pauli_fidpairs opts of
              Some _ \<Rightarrow> Inr same_basis_fidpairs
            | None \<Rightarrow>
                idle_tomography_fidpairs (ext_tile_pauli_fidpairs ext) nQubits maxErrWeight
                  False True extract_affine
                  (case opt_ham_tmpl opts of Some t \<Rightarrow> t
                   | None \<Rightarrow> [''ZY'', ''ZX'', ''XZ'', ''YZ'', ''YX'', ''XY''])
                  preferred_prep_basis_signs preferred_meas_basis_signs)
       (\<lambda>pauli_fidpairs.
     ebind (sto_collect ext ds maxLengths pauliDicts maxErrWeight GiStr extract_affine errors
              fitOrder pauli_fidpairs)
       (\<lambda>(my_J, infos_by_fidpair).
     let J = map (map real_of_int) my_J;
         obs_err_rates = obs_rates_of infos_by_fidpair
     in
     if jacmode = ''separate'' then
       ebind (pinv_rates ext J obs_err_rates) (\<lambda>intrinsic_stochastic_rates.
         if extract_affine then
           (let Nrates = length intrinsic_stochastic_rates in
            Inr (store ''stochastic/affine'' pauli_fidpairs infos_by_fidpair
                   (loc\<lparr>intrinsic_rates :=
                          AList.update ''affine'' (drop (Nrates div 2) intrinsic_stochastic_rates)
                            (AList.update ''stochastic'' (take (Nrates div 2) intrinsic_stochastic_rates)
                               (intrinsic_rates loc))\<rparr>)))
         else
           Inr (store ''stochastic'' pauli_fidpairs infos_by_fidpair
                  (loc\<lparr>intrinsic_rates :=
                         AList.update ''stochastic'' intrinsic_stochastic_rates (intrinsic_rates loc)\<rparr>)))
     else if extract_affine then
       (if jacmode = ''together'' then
          Inr (store ''stochastic/affine'' pauli_fidpairs infos_by_fidpair
                 (loc\<lparr>sto_aff_jac := Some J, sto_aff_obs_err_rates := Some obs_err_rates\<rparr>))
        else Inl ValueError)
     else
       (if jacmode = ''together'' then
          Inr (store ''stochastic'' pauli_fidpairs infos_by_fidpair
                 (loc\<lparr>sto_aff_jac := Some J, sto_aff_obs_err_rates := Some obs_err_rates\<rparr>))
        else Inr (store ''stochastic'' pauli_fidpairs infos_by_fidpair loc))))"

text \<open>The Hamiltonian stage.\<close>

definition ham_fidpair_rows ::
  "'op externals \<Rightarrow> dataset \<Rightarrow> int list \<Rightarrow> pauliDict \<times> pauliDict \<Rightarrow> int \<Rightarrow> GateString \<Rightarrow> bool \<Rightarrow>
     NQPauliOp list \<Rightarrow> int \<Rightarrow> NQPauliState \<times> NQPauliState \<Rightarrow>
     error + (string \<times> int list \<times> row_info) list" where
  "ham_fidpair_rows ext ds maxLengths pauliDicts maxErrWeight GiStr extract_affine errors fitOrder
       pauli_fidpair =
     collect (\<lambda>obs.
         let Jrow = map (\<lambda>err. hamiltonian_jac_element (ext_icommutatorOver2 ext) (ext_statedot ext)
                                  (fst pauli_fidpair) err obs) errors
         in
         ebind (if extract_affine then
                  ebind (collect (\<lambda>err. affine_jac_obs_element (fst pauli_fidpair) err
                                           (snd pauli_fidpair) obs) errors)
                    (\<lambda>Jaff_row. Inr (Some Jaff_row))
                else Inr None) (\<lambda>Jaff_row.
         ebind (get_obs_hamiltonian_err_rate (ext_polyfit ext) (ext_to_gatestring ext) ds
                  pauli_fidpair pauliDicts GiStr obs maxLengths fitOrder) (\<lambda>info.
         Inr (obs, Jrow, with_rows info Jrow Jaff_row))))
       (ext_allobservables ext (snd pauli_fidpair) maxErrWeight)"

definition ham_collect ::
  "'op externals \<Rightarrow> dataset \<Rightarrow> int list \<Rightarrow> pauliDict \<times> pauliDict \<Rightarrow> int \<Rightarrow> GateString \<Rightarrow> bool \<Rightarrow>
     NQPauliOp list \<Rightarrow> int \<Rightarrow> (NQPauliState \<times> NQPauliState) list \<Rightarrow>
     error + (int list list \<times> int list list \<times> (string \<times> row_info) list list)" where
  "ham_collect ext ds maxLengths pauliDicts maxErrWeight GiStr extract_affine errors fitOrder
       pauli_fidpairs =
     ebind (collect (ham_fidpair_rows ext ds maxLengths pauliDicts maxErrWeight GiStr extract_affine
                       errors fitOrder) pauli_fidpairs)
       (\<lambda>per_fidpair.
          Inr (concat (map (map (fst \<circ> snd)) per_fidpair),
               concat (map (map (\<lambda>(obs, Jrow, info).
                                   case info_affine_jacobian_row info of
                                     Some r \<Rightarrow> r | None \<Rightarrow> [])) per_fidpair),
               map infos_dict per_fidpair))"

text \<open>obs\_err\_rates -= corr, with numpy's broadcasting of a vector of length 1.\<close>

definition subtract_in_place :: "real list \<Rightarrow> real list \<Rightarrow> error + real list" where
  "subtract_in_place obs_err_rates corr =
     (if length corr = length obs_err_rates then Inr (map2 (-) obs_err_rates corr)
      else if length corr = 1 then Inr (map (\<lambda>x. x - corr ! 0) obs_err_rates)
      else Inl ValueError)"

text \<open>np.concatenate((J, Jaff), axis=1).\<close>

definition concatenate_columns :: "real list list \<Rightarrow> real list list \<Rightarrow> error + real list list" where
  "concatenate_columns J Jaff =
     (if J = [] \<or> Jaff = [] \<or> length J \<noteq> length Jaff then Inl ValueError
      else Inr (map2 (@) J Jaff))"

definition hamiltonian_stage ::
  "'op externals \<Rightarrow> int \<Rightarrow> dataset \<Rightarrow> int list \<Rightarrow> pauliDict \<times> pauliDict \<Rightarrow> int \<Rightarrow> GateString \<Rightarrow>
     bool \<Rightarrow> advancedOptions \<Rightarrow> string \<Rightarrow> string list \<Rightarrow> string list \<Rightarrow>
     (NQPauliState \<times> NQPauliState) list \<Rightarrow> NQPauliOp list \<Rightarrow> int \<Rightarrow> locals \<Rightarrow> error + locals" where
  "hamiltonian_stage ext nQubits ds maxLengths pauliDicts maxErrWeight GiStr extract_affine
       opts jacmode preferred_prep_basis_signs preferred_meas_basis_signs diff_basis_fidpairs
       errors fitOrder loc =
     ebind (case opt_pauli_fidpairs opts of
              Some _ \<Rightarrow> Inr diff_basis_fidpairs
            | None \<Rightarrow>
                idle_tomography_fidpairs (ext_tile_pauli_fidpairs ext) nQubits maxErrWeight
                  True False False
                  (case opt_ham_tmpl opts of Some t \<Rightarrow> t
                   | None \<Rightarrow> [''ZY'', ''ZX'', ''XZ'', ''YZ'', ''YX'', ''XY''])
                  preferred_prep_basis_signs preferred_meas_basis_signs)
       (\<lambda>pauli_fidpairs.
     ebind (ham_collect ext ds maxLengths pauliDicts maxErrWeight GiStr extract_affine errors
              fitOrder pauli_fidpairs)
       (\<lambda>(my_J, my_Jaff, infos_by_fidpair).
     let J = map (map real_of_int) my_J;
         obs_err_rates = obs_rates_of infos_by_fidpair
     in
     if jacmode = ''separate'' then
       ebind (if extract_affine then
                (let Jaff = map (map real_of_int) my_Jaff in
                 ebind (lookup (intrinsic_rates loc) ''affine'') (\<lambda>Aintrinsic.
                 ebind (dot Jaff Aintrinsic) (\<lambda>corr.
                 subtract_in_place obs_err_rates corr)))
              else Inr obs_err_rates) (\<lambda>obs_err_rates.
       ebind (pinv_rates ext J obs_err_rates) (\<lambda>intrinsic_hamiltonian_rates.
       Inr (store ''hamiltonian'' pauli_fidpairs infos_by_fidpair
              (loc\<lparr>intrinsic_rates :=
                     AList.update ''hamiltonian'' intrinsic_hamiltonian_rates (intrinsic_rates loc)\<rparr>))))
     else if jacmode = ''together'' then
       ebind (if extract_affine then concatenate_columns J (map (map real_of_int) my_Jaff)
              else Inr J) (\<lambda>ham_aff_jac'.
       Inr (store ''hamiltonian'' pauli_fidpairs infos_by_fidpair
              (loc\<lparr>ham_aff_jac := Some ham_aff_jac', ham_aff_obs_err_rates := Some obs_err_rates\<rparr>)))
     else Inr (store ''hamiltonian'' pauli_fidpairs infos_by_fidpair loc)))"

text \<open>
  The joint inversion of jacobian mode together.  Jbig is built from zeros by block
  assignment: the stochastic/affine rows come first and start at column sto\_off, the
  Hamiltonian rows follow with their Hamiltonian columns first and their affine columns
  last.  An assignment whose shapes do not match is a ValueError, and slicing the columns
  of an empty array is an IndexError.
\<close>

definition assign_block :: "nat \<Rightarrow> real list list \<Rightarrow> error + real list list" where
  "assign_block width src =
     (if src = [] then (if width = 0 then Inr [] else Inl ValueError)
      else if \<forall>r \<in> set src. length r = width then Inr src
      else Inl ValueError)"

definition joint_inversion ::
  "'op externals \<Rightarrow> bool \<Rightarrow> bool \<Rightarrow> bool \<Rightarrow> NQPauliOp list \<Rightarrow> locals \<Rightarrow> error + locals" where
  "joint_inversion ext extract_hamiltonian extract_stochastic extract_affine errors loc =
     (let n = length errors;
          sto_jac = (case sto_aff_jac loc of Some J \<Rightarrow> J | None \<Rightarrow> []);
          ham_jac = (case ham_aff_jac loc of Some J \<Rightarrow> J | None \<Rightarrow> []);
          r1 = (if extract_stochastic then length sto_jac else 0);
          c1 = (if extract_stochastic then (if extract_affine then n + n else n) else 0);
          sto_off = (if extract_hamiltonian then n else 0);
          rows = r1 + (if extract_hamiltonian then length ham_jac else 0);
          cols = c1 + (if extract_hamiltonian then n else 0)
      in
      ebind (if extract_stochastic then
               ebind (assign_block (cols - sto_off) sto_jac) (\<lambda>blk.
               Inr (map (\<lambda>r. replicate sto_off 0 @ r) blk))
             else Inr []) (\<lambda>sto_rows.
      ebind (if extract_hamiltonian then
               (if ham_jac = [] then Inl IndexError
                else
                  ebind (assign_block sto_off (map (take sto_off) ham_jac)) (\<lambda>hblk.
                  ebind (if extract_affine then assign_block n (map (drop sto_off) ham_jac)
                         else Inr (map (\<lambda>r. []) ham_jac)) (\<lambda>ablk.
                  Inr (map2 (\<lambda>h a. h @ replicate (cols - sto_off - length a) 0 @ a) hblk ablk))))
             else Inr []) (\<lambda>ham_rows.
      let Jbig = sto_rows @ ham_rows;
          obs_to_concat =
            (if extract_stochastic then [case sto_aff_obs_err_rates loc of Some v \<Rightarrow> v | None \<Rightarrow> []]
             else []) @
            (if extract_hamiltonian then [case ham_aff_obs_err_rates loc of Some v \<Rightarrow> v | None \<Rightarrow> []]
             else []);
          rank = ext_matrix_rank ext Jbig
      in
      ebind (warn_if_rank_deficient rank cols) (\<lambda>_.
      let invJ = ext_pinv ext Jbig in
      ebind (if obs_to_concat = [] then Inl ValueError else Inr (concat obs_to_concat))
        (\<lambda>obs_err_rates.
      ebind (dot invJ obs_err_rates) (\<lambda>all_intrinsic_rates.
      let off0 = 0;
          rates1 = (if extract_hamiltonian
                    then AList.update ''hamiltonian'' (take n (drop off0 all_intrinsic_rates))
                           (intrinsic_rates loc)
                    else intrinsic_rates loc);
          off1 = (if extract_hamiltonian then off0 + n else off0);
          rates2 = (if extract_stochastic
                    then AList.update ''stochastic'' (take n (drop off1 all_intrinsic_rates)) rates1
                    else rates1);
          off2 = (if extract_stochastic then off1 + n else off1);
          rates3 = (if extract_affine
                    then AList.update ''affine'' (take n (drop off2 all_intrinsic_rates)) rates2
                    else rates2)
      in Inr (loc\<lparr>intrinsic_rates := rates3\<rparr>)))))))"

text \<open>do\_idle\_tomography.\<close>

definition do_idle_tomography ::
  "'op externals \<Rightarrow> int \<Rightarrow> dataset \<Rightarrow> int list \<Rightarrow> pauliDict \<times> pauliDict \<Rightarrow> int \<Rightarrow> GateString \<Rightarrow>
     bool \<Rightarrow> bool \<Rightarrow> bool \<Rightarrow> advancedOptions \<Rightarrow> error + results" where
  "do_idle_tomography ext nQubits ds maxLengths pauliDicts maxErrWeight GiStr
       extract_hamiltonian extract_stochastic extract_affine opts =
     (let (prepDict, measDict) = pauliDicts;
          jacmode = (case opt_jacobian_mode opts of Some m \<Rightarrow> m | None \<Rightarrow> ''separate'')
      in
      ebind (case opt_preferred_prep_basis_signs opts of
               Some s \<Rightarrow> Inr s | None \<Rightarrow> preferred_signs_from_paulidict prepDict)
        (\<lambda>preferred_prep_basis_signs.
      ebind (case opt_preferred_meas_basis_signs opts of
               Some s \<Rightarrow> Inr s | None \<Rightarrow> preferred_signs_from_paulidict measDict)
        (\<lambda>preferred_meas_basis_signs.
      let same_basis_fidpairs =
            (case opt_pauli_fidpairs opts of
               Some ps \<Rightarrow> filter (\<lambda>p. rep (fst p) = rep (snd p)) ps | None \<Rightarrow> []);
          diff_basis_fidpairs =
            (case opt_pauli_fidpairs opts of
               Some ps \<Rightarrow> filter (\<lambda>p. rep (fst p) \<noteq> rep (snd p)) ps | None \<Rightarrow> []);
          errors = ext_allerrors ext nQubits maxErrWeight;
          fitOrder = (case opt_fit_order opts of Some k \<Rightarrow> k | None \<Rightarrow> 1);
          loc0 = \<lparr>intrinsic_rates = [], pauli_fidpair_dict = [], observed_rate_infos = [],
                  sto_aff_jac = None, sto_aff_obs_err_rates = None,
                  ham_aff_jac = None, ham_aff_obs_err_rates = None\<rparr>
      in
      ebind (if extract_stochastic then
               stochastic_stage ext nQubits ds maxLengths pauliDicts maxErrWeight GiStr
                 extract_affine opts jacmode preferred_prep_basis_signs
                 preferred_meas_basis_signs same_basis_fidpairs errors fitOrder loc0
             else if extract_affine then Inl ValueError
             else Inr loc0) (\<lambda>loc1.
      ebind (if extract_hamiltonian then
               hamiltonian_stage ext nQubits ds maxLengths pauliDicts maxErrWeight GiStr
                 extract_affine opts jacmode preferred_prep_basis_signs
                 preferred_meas_basis_signs diff_basis_fidpairs errors fitOrder loc1
             else Inr loc1) (\<lambda>loc2.
      ebind (if jacmode = ''together'' then
               joint_inversion ext extract_hamiltonian extract_stochastic extract_affine errors loc2
             else Inr loc2) (\<lambda>loc3.
      Inr \<lparr>res_dataset = ds, res_maxLengths = maxLengths, res_maxErrWeight = maxErrWeight,
           res_fitOrder = fitOrder, res_errors = errors,
           res_intrinsic_rates = intrinsic_rates loc3,
           res_pauli_fidpair_dict = pauli_fidpair_dict loc3,
           res_observed_rate_infos = observed_rate_infos loc3\<rparr>))))))"

subsection \<open>Example parameters\<close>

text \<open>
  Parameters for one qubit, used to evaluate the functions on concrete inputs: the
  commutation parity of two Pauli letters, the half commutator i[E, O]/2 of two
  single-qubit Paulis as a signed letter, its dot product with a state, the identity
  tiling (nQubits = maxweight), the errors X, Y, Z, the single outcome that flips the
  expected bit, the observable of the measurement basis, gate strings that spell the
  signed basis letters, the straight line through two data points as the order-1 fit
  of a sweep of two lengths, and the rank of a matrix by Gaussian elimination.
\<close>

definition example_commute_parity :: "char \<Rightarrow> char \<Rightarrow> int" where
  "example_commute_parity pauli1 pauli2 =
     (if pauli1 = CHR ''I'' \<or> pauli2 = CHR ''I'' \<or> pauli1 = pauli2 then 1 else - 1)"

definition example_icommutatorOver2 :: "NQPauliOp \<Rightarrow> NQPauliOp \<Rightarrow> (int \<times> char) option" where
  "example_icommutatorOver2 E O' =
     (if E = ''X'' \<and> O' = ''Y'' then Some (- 1, CHR ''Z'')
      else if E = ''Y'' \<and> O' = ''X'' then Some (1, CHR ''Z'')
      else if E = ''Y'' \<and> O' = ''Z'' then Some (- 1, CHR ''X'')
      else if E = ''Z'' \<and> O' = ''Y'' then Some (1, CHR ''X'')
      else if E = ''Z'' \<and> O' = ''X'' then Some (- 1, CHR ''Y'')
      else if E = ''X'' \<and> O' = ''Z'' then Some (1, CHR ''Y'')
      else None)"

definition example_statedot :: "int \<times> char \<Rightarrow> NQPauliState \<Rightarrow> int" where
  "example_statedot com st =
     (if rep st = [snd com] then fst com * prod_list (signs st) else 0)"

definition example_to_gatestring :: "NQPauliState \<Rightarrow> pauliDict \<Rightarrow> GateString" where
  "example_to_gatestring st d =
     map (\<lambda>(s, l). (if s = 1 then ''+'' else ''-'') @ [l]) (zip (signs st) (rep st))"

definition example_polyfit :: "real list \<Rightarrow> real list \<Rightarrow> int \<Rightarrow> real list \<Rightarrow> error + real list" where
  "example_polyfit x y deg w =
     (if deg = 1 \<and> length x = 2 \<and> length y = 2 \<and> x ! 0 \<noteq> x ! 1
      then Inr [(y ! 1 - y ! 0) / (x ! 1 - x ! 0),
                y ! 0 - (y ! 1 - y ! 0) / (x ! 1 - x ! 0) * x ! 0]
      else Inl ValueError)"

definition eliminate :: "real list \<Rightarrow> real list \<Rightarrow> real list" where
  "eliminate p r = map2 (\<lambda>a b. b - hd r / hd p * a) (tl p) (tl r)"

primrec rank_aux :: "nat \<Rightarrow> real list list \<Rightarrow> nat" where
  "rank_aux 0 rows = 0"
| "rank_aux (Suc k) rows =
     (case filter (\<lambda>r. hd r \<noteq> 0) rows of
        [] \<Rightarrow> rank_aux k (map tl rows)
      | p # _ \<Rightarrow> 1 + rank_aux k (map (eliminate p) (remove1 p rows)))"

definition gauss_rank :: "real list list \<Rightarrow> nat" where
  "gauss_rank J = (case J of [] \<Rightarrow> 0 | r # _ \<Rightarrow> rank_aux (length r) J)"

definition example_externals :: "(real list list \<Rightarrow> real list list) \<Rightarrow> (int \<times> char) externals" where
  "example_externals pinv =
     \<lparr>ext_commute_parity = example_commute_parity,
      ext_icommutatorOver2 = example_icommutatorOver2,
      ext_statedot = example_statedot,
      ext_tile_pauli_fidpairs = (\<lambda>tmpl_pairs nQubits maxweight. tmpl_pairs),
      ext_allerrors = (\<lambda>nQubits maxweight. [''X'', ''Y'', ''Z'']),
      ext_alloutcomes = (\<lambda>prep meas maxweight. [if signs prep = signs meas then ''1'' else ''0'']),
      ext_allobservables = (\<lambda>meas maxweight. [rep meas]),
      ext_to_gatestring = example_to_gatestring,
      ext_polyfit = example_polyfit,
      ext_matrix_rank = gauss_rank,
      ext_pinv = pinv\<rparr>"

definition example_options :: advancedOptions where
  "example_options =
     \<lparr>opt_jacobian_mode = None, opt_preferred_prep_basis_signs = Some [''+'', ''+'', ''+''],
      opt_preferred_meas_basis_signs = Some [''+'', ''+'', ''+''], opt_pauli_fidpairs = None,
      opt_fit_order = None, opt_ham_tmpl = Some [''X'', ''Y'', ''Z'']\<rparr>"

text \<open>A dataset in which every circuit gave outcome 0 in 90 of 100 samples.\<close>

definition constant_dataset :: dataset where
  "constant_dataset g = Some \<lparr>counts = [(''0'', 90), (''1'', 10)], total = 100\<rparr>"

text \<open>
  The design matrix of the stochastic/affine stage for one qubit with the generated
  fiducial pairs (+X, +Y, +Z, -X, -Y, -Z, each prepared and measured in the same state)
  is square and invertible; this is its inverse, which is its pseudo-inverse.
\<close>

definition example_sto_aff_pinv :: "real list list" where
  "example_sto_aff_pinv =
     [[- 1/4, 1/4, 1/4, - 1/4, 1/4, 1/4],
      [1/4, - 1/4, 1/4, 1/4, - 1/4, 1/4],
      [1/4, 1/4, - 1/4, 1/4, 1/4, - 1/4],
      [- 1/2, 0, 0, 1/2, 0, 0],
      [0, - 1/2, 0, 0, 1/2, 0],
      [0, 0, - 1/2, 0, 0, 1/2]]"
























section \<open>Verified properties\<close>

subsection \<open>List comprehensions that may raise\<close>

lemma collect_ok:
  "(\<forall>x\<in>set l. f x = Inr (g x)) \<Longrightarrow> collect f l = Inr (map g l)"
  by (induction l) simp_all

lemma collect_fail:
  "(\<forall>x\<in>set l. f x = Inl e \<or> (\<exists>v. f x = Inr v)) \<Longrightarrow> (\<exists>x\<in>set l. f x = Inl e)
    \<Longrightarrow> collect f l = Inl e"
proof (induction l)
  case Nil then show ?case by simp
next
  case (Cons x l)
  show ?case
  proof (cases "f x")
    case (Inl e') 
    with Cons.prems(1) have "e' = e" by auto
    with Inl show ?thesis by simp
  next
    case (Inr v)
    with Cons.prems have "\<exists>x\<in>set l. f x = Inl e" by auto
    moreover from Cons.prems have "\<forall>x\<in>set l. f x = Inl e \<or> (\<exists>v. f x = Inr v)" by simp
    ultimately have "collect f l = Inl e" using Cons.IH by blast
    with Inr show ?thesis by simp
  qed
qed

lemma collect_some_fail:
  "x \<in> set l \<Longrightarrow> f x = Inl e \<Longrightarrow> \<exists>e'. collect f l = Inl e'"
proof (induction l)
  case Nil then show ?case by simp
next
  case (Cons y l)
  show ?case
  proof (cases "f y")
    case (Inl a) then show ?thesis by simp
  next
    case (Inr v)
    with Cons.prems have "x \<in> set l" by auto
    from Cons.IH[OF this Cons.prems(2)] obtain e' where "collect f l = Inl e'" by blast
    with Inr show ?thesis by simp
  qed
qed

lemma collect_Inr:
  "collect f l = Inr vs \<Longrightarrow> length vs = length l \<and> (\<forall>k<length l. f (l ! k) = Inr (vs ! k))"
proof (induction l arbitrary: vs)
  case Nil then show ?case by simp
next
  case (Cons x l)
  from Cons.prems obtain v vs' where v: "f x = Inr v" "collect f l = Inr vs'" "vs = v # vs'"
    by (auto split: sum.splits)
  from Cons.IH[OF v(2)] have ih: "length vs' = length l" "\<forall>k<length l. f (l ! k) = Inr (vs' ! k)"
    by simp_all
  show ?case
  proof (intro conjI allI impI)
    show "length vs = length (x # l)" using ih v by simp
    fix k assume "k < length (x # l)"
    then show "f ((x # l) ! k) = Inr (vs ! k)" using ih v by (cases k) simp_all
  qed
qed

lemma ebind_Inr: "ebind m f = Inr y \<Longrightarrow> \<exists>x. m = Inr x \<and> f x = Inr y"
  by (cases m) (simp_all add: ebind_def)

lemma collect_error:
  "collect f l = Inl e \<Longrightarrow> \<exists>x\<in>set l. f x = Inl e"
  by (induction l) (auto split: sum.splits)

text \<open>The definitions of the model, for evaluating it on concrete inputs.\<close>

lemmas model_defs = do_idle_tomography_def stochastic_stage_def hamiltonian_stage_def joint_inversion_def
  sto_collect_def sto_fidpair_rows_def sto_jac_row_def ham_collect_def ham_fidpair_rows_def
  stochastic_jac_element_def stochastic_outcome_def np_prod_def affine_jac_element_def affhelper_def
  affine_jac_obs_element_def affhelper_obs_def hamiltonian_jac_element_def
  get_obs_stochastic_err_rate_def stochastic_data_to_fit_def freq_and_weight_def
  get_obs_hamiltonian_err_rate_def hamiltonian_data_to_fit_def unsigned_exptn_and_weight_def
  idle_circuit_def divide_py_def get_def index_def
  pinv_rates_def warn_if_rank_deficient_def global_name_def module_globals_def shape1_def dot_def
  obs_rates_of_def infos_dict_def with_rows_def store_def
  idle_tomography_fidpairs_def sto_flips_def sto_tmpl_pairs_def sto_tmpl_pair_def product_repeat_def
  ham_tmpl_pairs_def ham_tmpl_pair_def prev_str_def next_str_def prevPauli_def nextPauli_def
  base_signs_def conv_def lookup_def
  subtract_in_place_def concatenate_columns_def assign_block_def
  example_externals_def example_commute_parity_def example_icommutatorOver2_def example_statedot_def
  example_to_gatestring_def example_polyfit_def gauss_rank_def eliminate_def example_options_def
  constant_dataset_def ebind_def Let_def

subsection \<open>stochastic\_outcome\<close>

lemma loop_ok:
  "\<forall>(s1,P1,s2,P2,E) \<in> set l. P1 = P2 \<Longrightarrow>
   stochastic_outcome_loop cp acc l =
     Inr (acc @ map (\<lambda>(s1,P1,s2,P2,E). if (cp P1 E = 1) = (s1 = s2) then CHR ''0'' else CHR ''1'') l)"
  by (induction l arbitrary: acc) (auto simp: Let_def)

lemma loop_fail:
  "\<exists>(s1,P1,s2,P2,E) \<in> set l. P1 \<noteq> P2 \<Longrightarrow> stochastic_outcome_loop cp acc l = Inl AssertionError"
proof (induction l arbitrary: acc)
  case Nil then show ?case by simp
next
  case (Cons x l)
  obtain s1 P1 s2 P2 E where x: "x = (s1,P1,s2,P2,E)" by (cases x) auto
  show ?case
  proof (cases "P1 = P2")
    case False then show ?thesis by (simp add: x)
  next
    case True
    with Cons.prems x have "\<exists>(s1,P1,s2,P2,E) \<in> set l. P1 \<noteq> P2" by auto
    from Cons.IH[OF this] show ?thesis by (simp add: x Let_def)
  qed
qed

lemma stochastic_outcome_closed:
  assumes "length (rep prep) = n" "length (signs prep) = n" "length (signs meas) = n"
    "length err = n" "rep prep = rep meas"
  shows "stochastic_outcome cp prep err meas =
    Inr (map (\<lambda>i. if (cp (rep prep ! i) (err ! i) = 1) = (signs prep ! i = signs meas ! i)
                  then CHR ''0'' else CHR ''1'') [0..<n])"
proof -
  let ?l = "zip (signs prep) (zip (rep prep) (zip (signs meas) (zip (rep meas) err)))"
  have len: "length ?l = n" using assms by simp
  have same: "\<forall>(s1,P1,s2,P2,E) \<in> set ?l. P1 = P2"
    using assms by (auto simp: in_set_conv_nth)
  have "stochastic_outcome cp prep err meas =
     Inr (map (\<lambda>(s1,P1,s2,P2,E). if (cp P1 E = 1) = (s1 = s2) then CHR ''0'' else CHR ''1'') ?l)"
    unfolding stochastic_outcome_def using loop_ok[OF same, of cp "[]"] by simp
  moreover have "map (\<lambda>(s1,P1,s2,P2,E). if (cp P1 E = 1) = (s1 = s2) then CHR ''0'' else CHR ''1'') ?l
     = map (\<lambda>i. if (cp (rep prep ! i) (err ! i) = 1) = (signs prep ! i = signs meas ! i)
                  then CHR ''0'' else CHR ''1'') [0..<n]"
    using assms by (intro nth_equalityI) (auto simp: len)
  ultimately show ?thesis by simp
qed

lemma stochastic_outcome_mismatch:
  assumes "length (rep prep) = n" "length (signs prep) = n" "length (signs meas) = n"
    "length (rep meas) = n"
    "length err = n" "i < n" "rep prep ! i \<noteq> rep meas ! i"
  shows "stochastic_outcome cp prep err meas = Inl AssertionError"
proof -
  let ?l = "zip (signs prep) (zip (rep prep) (zip (signs meas) (zip (rep meas) err)))"
  let ?t = "(signs prep ! i, rep prep ! i, signs meas ! i, rep meas ! i, err ! i)"
  have len: "i < length ?l" using assms by simp
  have eq: "?l ! i = ?t" using assms by simp
  have "?l ! i \<in> set ?l" using len by (rule nth_mem)
  then have mem: "?t \<in> set ?l" by (simp only: eq)
  have "\<exists>(s1,P1,s2,P2,E) \<in> set ?l. P1 \<noteq> P2"
    by (rule bexI[OF _ mem]) (simp add: assms(7))
  then show ?thesis unfolding stochastic_outcome_def by (rule loop_fail)
qed

text \<open>
  Claim C4.  For prep, error and meas on n qubits: when prep and meas differ in a basis
  letter on some qubit, stochastic\_outcome fails with the assertion error.  When they
  have the same basis letters, it returns an outcome of n bits in which bit i is 0
  exactly when the basis letter commutes with the error letter and the prep sign equals
  the meas sign, or the letters anticommute and the signs differ, and is 1 otherwise.
  Consequently, for signs in {1, -1}: flipping the prep sign alone or the meas sign alone
  flips bit i, flipping both leaves it unchanged, and when the letters commute and the
  signs are equal the four outcomes read 0, 1, 1, 0 at bit i.
\<close>

theorem stochastic_outcome_correct:
  assumes lens: "length (rep prep) = n" "length (signs prep) = n" "length (rep meas) = n"
      "length (signs meas) = n" "length err = n"
  shows "((\<exists>i<n. rep prep ! i \<noteq> rep meas ! i) \<longrightarrow>
            stochastic_outcome commute_parity prep err meas = Inl AssertionError) \<and>
         (rep prep = rep meas \<longrightarrow>
            (\<exists>out. stochastic_outcome commute_parity prep err meas = Inr out \<and> length out = n \<and>
               (\<forall>i<n. (out ! i = CHR ''0'' \<longleftrightarrow>
                          (commute_parity (rep prep ! i) (err ! i) = 1 \<and> signs prep ! i = signs meas ! i) \<or>
                          (commute_parity (rep prep ! i) (err ! i) \<noteq> 1 \<and> signs prep ! i \<noteq> signs meas ! i)) \<and>
                       (out ! i \<noteq> CHR ''0'' \<longrightarrow> out ! i = CHR ''1'')) \<and>
               (\<forall>i<n. signs prep ! i \<in> {1, - 1} \<and> signs meas ! i \<in> {1, - 1} \<longrightarrow>
                  (\<exists>outp outm outb.
                     stochastic_outcome commute_parity (flip_sign i prep) err meas = Inr outp \<and>
                     stochastic_outcome commute_parity prep err (flip_sign i meas) = Inr outm \<and>
                     stochastic_outcome commute_parity (flip_sign i prep) err (flip_sign i meas) = Inr outb \<and>
                     (commute_parity (rep prep ! i) (err ! i) = 1 \<and> signs prep ! i = signs meas ! i
                        \<longrightarrow> out ! i = CHR ''0'' \<and> outp ! i = CHR ''1'' \<and> outm ! i = CHR ''1'' \<and> outb ! i = CHR ''0'') \<and>
                     outp ! i \<noteq> out ! i \<and> outm ! i \<noteq> out ! i \<and> outb ! i = out ! i))))"
    (is "?fails \<and> (_ \<longrightarrow> (\<exists>out. ?ret out \<and> ?len out \<and> ?bits out \<and> ?flips out))")
proof (rule conjI)
  show ?fails
    using stochastic_outcome_mismatch[OF lens(1,2,4,3,5)] by blast
next
  show "rep prep = rep meas \<longrightarrow> (\<exists>out. ?ret out \<and> ?len out \<and> ?bits out \<and> ?flips out)"
  proof
    assume same: "rep prep = rep meas"
    let ?bit = "\<lambda>p m i. if (commute_parity (rep p ! i) (err ! i) = 1) = (signs p ! i = signs m ! i)
                  then CHR ''0'' else CHR ''1''"
    let ?out = "map (?bit prep meas) [0..<n]"
    have base: "?ret ?out"
      using stochastic_outcome_closed[OF lens(1,2,4,5) same] .
    have fp: "stochastic_outcome commute_parity (flip_sign i prep) err meas
       = Inr (map (?bit (flip_sign i prep) meas) [0..<n])" for i
      using stochastic_outcome_closed[of "flip_sign i prep" n meas err commute_parity] lens same
      by (simp add: flip_sign_def)
    have fm: "stochastic_outcome commute_parity prep err (flip_sign i meas)
       = Inr (map (?bit prep (flip_sign i meas)) [0..<n])" for i
      using stochastic_outcome_closed[of prep n "flip_sign i meas" err commute_parity] lens same
      by (simp add: flip_sign_def)
    have fb: "stochastic_outcome commute_parity (flip_sign i prep) err (flip_sign i meas)
       = Inr (map (?bit (flip_sign i prep) (flip_sign i meas)) [0..<n])" for i
      using stochastic_outcome_closed[of "flip_sign i prep" n "flip_sign i meas" err commute_parity] lens same
      by (simp add: flip_sign_def)
    have len: "?len ?out" by simp
    have bits: "?bits ?out" by auto
    have flips: "?flips ?out"
    proof (intro allI impI)
      fix i assume i: "i < n" and sg: "signs prep ! i \<in> {1, - 1} \<and> signs meas ! i \<in> {1, - 1}"
      have sp: "signs (flip_sign i prep) ! i = - (signs prep ! i)" "rep (flip_sign i prep) = rep prep"
        and sm: "signs (flip_sign i meas) ! i = - (signs meas ! i)"
        using i lens by (simp_all add: flip_sign_def)
      have nz: "signs prep ! i = signs meas ! i \<longleftrightarrow> - (signs prep ! i) \<noteq> signs meas ! i"
           "signs prep ! i = signs meas ! i \<longleftrightarrow> signs prep ! i \<noteq> - (signs meas ! i)"
        using sg by auto
      let ?outp = "map (?bit (flip_sign i prep) meas) [0..<n]"
      let ?outm = "map (?bit prep (flip_sign i meas)) [0..<n]"
      let ?outb = "map (?bit (flip_sign i prep) (flip_sign i meas)) [0..<n]"
      have p: "?outp ! i \<noteq> ?out ! i" using i nz by (simp add: sp)
      have m: "?outm ! i \<noteq> ?out ! i" using i nz by (simp add: sm)
      have b: "?outb ! i = ?out ! i" using i by (simp add: sp sm)
      have o: "commute_parity (rep prep ! i) (err ! i) = 1 \<and> signs prep ! i = signs meas ! i
                 \<longrightarrow> ?out ! i = CHR ''0''" using i by simp
      have p1: "commute_parity (rep prep ! i) (err ! i) = 1 \<and> signs prep ! i = signs meas ! i
                 \<longrightarrow> ?outp ! i = CHR ''1''" using i nz by (simp add: sp)
      have m1: "commute_parity (rep prep ! i) (err ! i) = 1 \<and> signs prep ! i = signs meas ! i
                 \<longrightarrow> ?outm ! i = CHR ''1''" using i nz by (simp add: sm)
      have b1: "commute_parity (rep prep ! i) (err ! i) = 1 \<and> signs prep ! i = signs meas ! i
                 \<longrightarrow> ?outb ! i = CHR ''0''" using i by (simp add: sp sm)
      show "\<exists>outp outm outb.
                     stochastic_outcome commute_parity (flip_sign i prep) err meas = Inr outp \<and>
                     stochastic_outcome commute_parity prep err (flip_sign i meas) = Inr outm \<and>
                     stochastic_outcome commute_parity (flip_sign i prep) err (flip_sign i meas) = Inr outb \<and>
                     (commute_parity (rep prep ! i) (err ! i) = 1 \<and> signs prep ! i = signs meas ! i
                        \<longrightarrow> ?out ! i = CHR ''0'' \<and> outp ! i = CHR ''1'' \<and> outm ! i = CHR ''1'' \<and> outb ! i = CHR ''0'') \<and>
                     outp ! i \<noteq> ?out ! i \<and> outm ! i \<noteq> ?out ! i \<and> outb ! i = ?out ! i"
        apply (rule exI[of _ ?outp])
        apply (rule exI[of _ ?outm])
        apply (rule exI[of _ ?outb])
        apply (intro conjI impI)
        using fp[of i] fm[of i] fb[of i] p m b o p1 m1 b1 by blast+
    qed
    show "\<exists>out. ?ret out \<and> ?len out \<and> ?bits out \<and> ?flips out"
      by (rule exI[of _ ?out]) (intro conjI base len bits flips)
  qed
qed

text \<open>The theorem applied to a two-qubit state, once with equal and once with different bases.\<close>

theorem stochastic_outcome_correct_witness:
  "length (rep \<lparr>rep = ''XZ'', signs = [1, - 1]\<rparr>) = 2 \<and>
   rep \<lparr>rep = ''XZ'', signs = [1, - 1]\<rparr> = rep \<lparr>rep = ''XZ'', signs = [1, 1]\<rparr> \<and>
   (\<exists>out. stochastic_outcome (\<lambda>a b. if a = CHR ''I'' \<or> b = CHR ''I'' \<or> a = b then 1 else - 1)
            \<lparr>rep = ''XZ'', signs = [1, - 1]\<rparr> ''ZZ'' \<lparr>rep = ''XZ'', signs = [1, 1]\<rparr> = Inr out \<and>
          length out = 2 \<and> out ! 0 = CHR ''1'' \<and> out ! 1 = CHR ''1'') \<and>
   stochastic_outcome (\<lambda>a b. if a = CHR ''I'' \<or> b = CHR ''I'' \<or> a = b then 1 else - 1)
            \<lparr>rep = ''XZ'', signs = [1, - 1]\<rparr> ''ZZ'' \<lparr>rep = ''XY'', signs = [1, 1]\<rparr> = Inl AssertionError"
proof -
  let ?cp = "\<lambda>a b. if a = CHR ''I'' \<or> b = CHR ''I'' \<or> a = b then 1 else - 1 :: int"
  let ?p = "\<lparr>rep = ''XZ'', signs = [1, - 1]\<rparr>"
  let ?m = "\<lparr>rep = ''XZ'', signs = [1, 1]\<rparr>"
  let ?m' = "\<lparr>rep = ''XY'', signs = [1, 1]\<rparr>"
  have a: "\<exists>out. stochastic_outcome ?cp ?p ''ZZ'' ?m = Inr out \<and>
          length out = 2 \<and> out ! 0 = CHR ''1'' \<and> out ! 1 = CHR ''1''"
    using stochastic_outcome_correct[of ?p 2 ?m "''ZZ''" ?cp] by (simp add: less_2_cases_iff all_conj_distrib) blast 
  have ex: "\<exists>i<(2::nat). rep ?p ! i \<noteq> rep ?m' ! i" by (intro exI[of _ 1]) simp
  have b: "stochastic_outcome ?cp ?p ''ZZ'' ?m' = Inl AssertionError"
    by (rule stochastic_outcome_correct[of ?p 2 ?m' "''ZZ''" ?cp, THEN conjunct1, THEN mp, OF _ _ _ _ _ ex])
       simp_all
  show ?thesis using a b by simp
qed

subsection \<open>affine\_jac\_element\<close>

lemma affhelper_value:
  assumes "P \<in> set ''XYZ''"
  shows "affhelper s1 P e s2 P b =
    Inr (if e = CHR ''I'' then (if s1 * s2 * (if b = CHR ''0'' then 1 else - 1) = 1 then 1 else 0)
         else if e \<noteq> P then 0
         else if b = CHR ''0'' then s2 else - s2)"
  using assms by (auto simp: affhelper_def Let_def)

lemma affhelper_total: "affhelper s1 P1 e s2 P2 b = Inl AssertionError \<or> (\<exists>v. affhelper s1 P1 e s2 P2 b = Inr v)"
  unfolding affhelper_def Let_def by (simp only: if_split_eq1 if_split_eq2 sum.inject sum.distinct simp_thms) blast

lemma affhelper_mismatch: "P1 \<noteq> P2 \<Longrightarrow> affhelper s1 P1 e s2 P2 b = Inl AssertionError"
  unfolding affhelper_def by (simp only: if_True if_False not_False_eq_True not_True_eq_False if_cancel split: if_split)

lemma prod_list_01:
  "(\<forall>x\<in>set (vs::int list). x = 0 \<or> x = 1) \<Longrightarrow>
     prod_list vs = (if \<forall>x\<in>set vs. x = 1 then 1 else 0)"
  by (induction vs) auto

lemma prod_list_signs:
  "(\<forall>x\<in>set (vs::int list). x \<in> {- 1, 0, 1}) \<Longrightarrow> prod_list vs \<in> {- 1, 0, 1}"
  by (induction vs) auto

lemma np_prod_exact:
  assumes "- (2 ^ 63) \<le> prod_list vs" "prod_list vs < 2 ^ 63"
  shows "np_prod vs = prod_list vs"
proof -
  have "0 \<le> prod_list vs + 2 ^ 63" "prod_list vs + 2 ^ 63 < 2 ^ 64" using assms by simp_all
  then have "(prod_list vs + 2 ^ 63) mod 2 ^ 64 = prod_list vs + 2 ^ 63" by (rule mod_pos_pos_trivial)
  then show ?thesis by (simp add: np_prod_def)
qed

lemma np_prod_signs:
  assumes "\<forall>x\<in>set (vs::int list). x \<in> {- 1, 0, 1}"
  shows "np_prod vs = prod_list vs"
proof -
  from prod_list_signs[OF assms] have "- 1 \<le> prod_list vs" "prod_list vs \<le> 1" by auto
  then show ?thesis by (intro np_prod_exact) simp_all
qed

text \<open>
  Claim C9.  For prep, error, meas and outcome on n qubits: when prep and meas differ in a
  basis letter on some qubit, affine\_jac\_element fails with the assertion error.  When
  they have the same basis letters, all among X, Y, Z, and every sign of meas is 1 or -1,
  it returns the product over the qubits of per-qubit values h, each in {-1, 0, 1} (so
  that the 64-bit product of numpy is the exact product): for error letter I the value is
  1 if prepSign * measSign * outsign = 1 and 0 otherwise (outsign is 1 for outcome bit 0
  and -1 for bit 1); for an error letter that is neither I nor the basis letter it is 0;
  for an error letter equal to the basis letter it is measSign for bit 0 and -measSign
  for bit 1.  With error letter I on all qubits the result is 1 iff
  prepSign * measSign * outsign = 1 on every qubit, and 0 otherwise.
\<close>

theorem affine_jac_element_correct:
  assumes lens: "length (rep prep) = n" "length (signs prep) = n" "length (rep meas) = n"
      "length (signs meas) = n" "length err = n" "length outcome = n"
  shows "((\<exists>i<n. rep prep ! i \<noteq> rep meas ! i) \<longrightarrow>
            affine_jac_element prep err meas outcome = Inl AssertionError) \<and>
         (rep prep = rep meas \<and> set (rep prep) \<subseteq> set ''XYZ'' \<and>
          (\<forall>i<n. signs meas ! i \<in> {1, - 1}) \<longrightarrow>
            (\<exists>h. length h = n \<and>
                 affine_jac_element prep err meas outcome = Inr (prod_list h) \<and>
                 (\<forall>i<n.
                    (err ! i = CHR ''I'' \<longrightarrow>
                       h ! i = (if signs prep ! i * signs meas ! i *
                                   (if outcome ! i = CHR ''0'' then 1 else - 1) = 1 then 1 else 0)) \<and>
                    (err ! i \<noteq> CHR ''I'' \<and> err ! i \<noteq> rep prep ! i \<longrightarrow> h ! i = 0) \<and>
                    (err ! i = rep prep ! i \<longrightarrow>
                       h ! i = (if outcome ! i = CHR ''0'' then signs meas ! i else - (signs meas ! i))) \<and>
                    h ! i \<in> {- 1, 0, 1}) \<and>
                 ((\<forall>i<n. err ! i = CHR ''I'') \<longrightarrow>
                    prod_list h =
                      (if \<forall>i<n. signs prep ! i * signs meas ! i *
                                   (if outcome ! i = CHR ''0'' then 1 else - 1) = 1
                       then 1 else 0))))"
    (is "?fails \<and> (?pre \<longrightarrow> (\<exists>h. ?len h \<and> ?ret h \<and> ?table h \<and> ?allI h))")
proof (rule conjI)
  let ?l = "zip (signs prep) (zip (rep prep) (zip (signs meas) (zip (rep meas) (zip err outcome))))"
  let ?f = "\<lambda>(s1, P1, s2, P2, Err, o'). affhelper s1 P1 Err s2 P2 o'"
  have len: "length ?l = n" using lens by simp
  have nth: "?l ! i = (signs prep ! i, rep prep ! i, signs meas ! i, rep meas ! i, err ! i, outcome ! i)"
    if "i < n" for i using that lens by simp
  show ?fails
  proof
    assume "\<exists>i<n. rep prep ! i \<noteq> rep meas ! i"
    then obtain i where i: "i < n" "rep prep ! i \<noteq> rep meas ! i" by blast
    have "?l ! i \<in> set ?l" using i len by (intro nth_mem) simp
    moreover have "?f (?l ! i) = Inl AssertionError"
      using affhelper_mismatch[OF i(2)] by (simp only: nth[OF i(1)] prod.case)
    ultimately have ex: "\<exists>x\<in>set ?l. ?f x = Inl AssertionError" by blast
    have tot: "\<forall>x\<in>set ?l. ?f x = Inl AssertionError \<or> (\<exists>v. ?f x = Inr v)"
    proof
      fix x :: "int \<times> char \<times> int \<times> char \<times> char \<times> char"
      obtain s1 P1 s2 P2 e b where x: "x = (s1, P1, s2, P2, e, b)" by (cases x) auto
      show "?f x = Inl AssertionError \<or> (\<exists>v. ?f x = Inr v)"
        using affhelper_total[of s1 P1 e s2 P2 b] by (simp only: x prod.case)
    qed
    from collect_fail[OF tot ex] show "affine_jac_element prep err meas outcome = Inl AssertionError"
      by (simp add: affine_jac_element_def ebind_def)
  qed
  show "?pre \<longrightarrow> (\<exists>h. ?len h \<and> ?ret h \<and> ?table h \<and> ?allI h)"
  proof
    assume pre: ?pre
    let ?g = "\<lambda>(s1, P1, s2, P2, e, b).
        (if e = CHR ''I'' then (if s1 * s2 * (if b = CHR ''0'' then 1 else - 1) = 1 then 1 else 0)
         else if e \<noteq> P1 then 0
         else if b = CHR ''0'' then s2 else - s2 :: int)"
    let ?h = "map ?g ?l"
    have inxyz: "rep prep ! i \<in> set ''XYZ''" if "i < n" for i
    proof -
      have "rep prep ! i \<in> set (rep prep)" using that lens(1) by simp
      then show ?thesis using pre by blast
    qed
    have ok: "\<forall>x\<in>set ?l. ?f x = Inr (?g x)"
    proof
      fix x assume "x \<in> set ?l"
      then obtain i where i: "i < n" "x = ?l ! i" unfolding in_set_conv_nth len by blast
      have same: "rep meas ! i = rep prep ! i" using pre by simp
      show "?f x = Inr (?g x)"
        unfolding i(2) nth[OF i(1)] prod.case same
        by (rule affhelper_value[OF inxyz[OF i(1)]])
    qed
    have hnth: "?h ! i = ?g (signs prep ! i, rep prep ! i, signs meas ! i, rep meas ! i, err ! i, outcome ! i)"
      if "i < n" for i using that len nth[OF that] by (simp only: nth_map)
    have l: "?len ?h" using len by simp
    have t: "?table ?h"
    proof (intro allI impI)
      fix i assume i: "i < n"
      have ne: "rep prep ! i \<noteq> CHR ''I''" using inxyz[OF i] by auto
      have sg: "signs meas ! i = 1 \<or> signs meas ! i = - 1" using pre i by auto
      show "(err ! i = CHR ''I'' \<longrightarrow>
                       ?h ! i = (if signs prep ! i * signs meas ! i *
                                   (if outcome ! i = CHR ''0'' then 1 else - 1) = 1 then 1 else 0)) \<and>
                    (err ! i \<noteq> CHR ''I'' \<and> err ! i \<noteq> rep prep ! i \<longrightarrow> ?h ! i = 0) \<and>
                    (err ! i = rep prep ! i \<longrightarrow>
                       ?h ! i = (if outcome ! i = CHR ''0'' then signs meas ! i else - (signs meas ! i))) \<and>
                    ?h ! i \<in> {- 1, 0, 1}"
        unfolding hnth[OF i] using ne sg by auto
    qed
    have small: "\<forall>x\<in>set ?h. x \<in> {- 1, 0, 1}"
    proof
      fix x assume "x \<in> set ?h"
      then obtain i where "i < n" "x = ?h ! i" unfolding in_set_conv_nth l by blast
      then show "x \<in> {- 1, 0, 1}" using t by blast
    qed
    have r: "?ret ?h"
      using collect_ok[OF ok] np_prod_signs[OF small]
      by (simp add: affine_jac_element_def ebind_def)
    have a: "?allI ?h"
    proof
      assume allI: "\<forall>i<n. err ! i = CHR ''I''"
      have v: "?h ! i = (if signs prep ! i * signs meas ! i *
                    (if outcome ! i = CHR ''0'' then 1 else - 1) = 1 then 1 else 0)" if "i < n" for i
        unfolding hnth[OF that] using allI that by simp
      have "\<forall>x\<in>set ?h. x = 0 \<or> x = 1"
      proof
        fix x assume "x \<in> set ?h"
        then obtain i where "i < n" "x = ?h ! i" unfolding in_set_conv_nth l by blast
        then show "x = 0 \<or> x = 1" using v by simp
      qed
      then have "prod_list ?h = (if \<forall>x\<in>set ?h. x = 1 then 1 else 0)" by (rule prod_list_01)
      moreover have "(\<forall>x\<in>set ?h. x = 1) \<longleftrightarrow> (\<forall>i<n. ?h ! i = 1)"
        by (simp only: all_set_conv_all_nth l)
      moreover have "(\<forall>i<n. ?h ! i = 1) \<longleftrightarrow> (\<forall>i<n. signs prep ! i * signs meas ! i *
                                   (if outcome ! i = CHR ''0'' then 1 else - 1) = 1)"
        using v by auto
      ultimately show "prod_list ?h =
                      (if \<forall>i<n. signs prep ! i * signs meas ! i *
                                   (if outcome ! i = CHR ''0'' then 1 else - 1) = 1
                       then 1 else 0)" by simp
    qed
    show "\<exists>h. ?len h \<and> ?ret h \<and> ?table h \<and> ?allI h"
      by (rule exI[of _ ?h]) (intro conjI l r t a)
  qed
qed

text \<open>
  Outside these signs the product can wrap: with the signs 2^62 and 4 of meas and the
  error equal to the basis on both qubits, the per-qubit values are 2^62 and 4 and the
  64-bit product is 0.
\<close>

lemma affine_jac_element_wraps:
  "affine_jac_element \<lparr>rep = ''ZZ'', signs = [1, 1]\<rparr> ''ZZ''
     \<lparr>rep = ''ZZ'', signs = [2 ^ 62, 4]\<rparr> ''00'' = Inr 0"
  by (simp add: affine_jac_element_def affhelper_def np_prod_def ebind_def)

text \<open>The theorem applied to a two-qubit state, once with equal and once with different bases.\<close>

theorem affine_jac_element_correct_witness:
  "length (rep \<lparr>rep = ''XZ'', signs = [1, - 1]\<rparr>) = 2 \<and>
   rep \<lparr>rep = ''XZ'', signs = [1, - 1]\<rparr> = rep \<lparr>rep = ''XZ'', signs = [1, 1]\<rparr> \<and>
   set (rep \<lparr>rep = ''XZ'', signs = [1, - 1]\<rparr>) \<subseteq> set ''XYZ'' \<and>
   set (signs \<lparr>rep = ''XZ'', signs = [1, 1]\<rparr>) \<subseteq> {1, - 1} \<and>
   (\<exists>h. length h = 2 \<and>
        affine_jac_element \<lparr>rep = ''XZ'', signs = [1, - 1]\<rparr> ''IZ'' \<lparr>rep = ''XZ'', signs = [1, 1]\<rparr> ''01''
          = Inr (prod_list h) \<and> h ! 0 = 1 \<and> h ! 1 = - 1) \<and>
   affine_jac_element \<lparr>rep = ''XZ'', signs = [1, - 1]\<rparr> ''IZ'' \<lparr>rep = ''XY'', signs = [1, 1]\<rparr> ''01''
     = Inl AssertionError"
proof -
  let ?p = "\<lparr>rep = ''XZ'', signs = [1, - 1]\<rparr>"
  let ?m = "\<lparr>rep = ''XZ'', signs = [1, 1]\<rparr>"
  let ?m' = "\<lparr>rep = ''XY'', signs = [1, 1]\<rparr>"
  have a: "\<exists>h. length h = 2 \<and> affine_jac_element ?p ''IZ'' ?m ''01'' = Inr (prod_list h) \<and>
              h ! 0 = 1 \<and> h ! 1 = - 1"
    using affine_jac_element_correct[of ?p 2 ?m "''IZ''" "''01''"]
    by (simp add: less_2_cases_iff all_conj_distrib) blast
  have ex: "\<exists>i<(2::nat). rep ?p ! i \<noteq> rep ?m' ! i" by (intro exI[of _ 1]) simp
  have b: "affine_jac_element ?p ''IZ'' ?m' ''01'' = Inl AssertionError"
    by (rule affine_jac_element_correct[of ?p 2 ?m' "''IZ''" "''01''", THEN conjunct1, THEN mp, OF _ _ _ _ _ _ ex])
       simp_all
  show ?thesis using a b by simp
qed

subsection \<open>Stochastic and affine templates of idle\_tomography\_fidpairs\<close>

lemma lookup_base_signs:
  assumes "3 \<le> length prefs" "l \<in> set ''XYZ''"
  shows "lookup (base_signs prefs) l = Inr (preferred_sign prefs l)"
proof -
  obtain a b c rest where p: "prefs = a # b # c # rest"
    using assms(1) by (cases prefs; cases "tl prefs"; cases "tl (tl prefs)") auto
  show ?thesis using assms(2)
    by (auto simp: p lookup_def base_signs_def preferred_sign_def)
qed

lemma product_lists_letters:
  "b \<in> set (product_lists (replicate n xs)) \<Longrightarrow> set b \<subseteq> set xs"
proof (induction n arbitrary: b)
  case 0 then show ?case by simp
next
  case (Suc n)
  then obtain x b' where "b = x # b'" "x \<in> set xs" "b' \<in> set (product_lists (replicate n xs))"
    by auto
  with Suc.IH[of b'] show ?case by simp
qed

lemma length_product_lists_replicate:
  "length (product_lists (replicate n xs)) = length xs ^ n"
  by (induction n) (simp_all add: length_concat o_def sum_list_triv)

lemma collect_signs:
  assumes "3 \<le> length prefs" "set b \<subseteq> set ''XYZ''"
  shows "collect (\<lambda>(f, l). ebind (lookup (base_signs prefs) l) (\<lambda>s. Inr (f * s))) (zip fl b)
     = Inr (map (\<lambda>(f, l). f * preferred_sign prefs l) (zip fl b))"
proof (rule collect_ok, rule ballI)
  fix x assume "x \<in> set (zip fl b)"
  moreover obtain f l where x: "x = (f, l)" by (cases x)
  ultimately have "l \<in> set b" by (simp add: set_zip_rightD)
  then have "l \<in> set ''XYZ''" using assms(2) by blast
  from lookup_base_signs[OF assms(1) this]
  show "(case x of (f, l) \<Rightarrow> ebind (lookup (base_signs prefs) l) (\<lambda>s. Inr (f * s))) =
         Inr (case x of (f, l) \<Rightarrow> f * preferred_sign prefs l)"
    by (simp add: x ebind_def)
qed

lemma sto_tmpl_pair_ok:
  assumes "3 \<le> length pps" "3 \<le> length pms" "set b \<subseteq> set ''XYZ''"
  shows "sto_tmpl_pair (base_signs pps) (base_signs pms) fl b =
     Inr (\<lparr>rep = b, signs = map (\<lambda>(f, l). f * preferred_sign pps l) (zip fl b)\<rparr>,
          \<lparr>rep = b, signs = map (\<lambda>(f, l). f * preferred_sign pms l) (zip fl b)\<rparr>)"
  unfolding sto_tmpl_pair_def collect_signs[OF assms(1,3)] collect_signs[OF assms(2,3)]
  by (simp add: ebind_def)

lemma sto_tmpl_pairs_ok:
  assumes "3 \<le> length pps" "3 \<le> length pms" "0 \<le> mw"
  shows "sto_tmpl_pairs (base_signs pps) (base_signs pms) mw flips =
     Inr (concat (map (\<lambda>fl. map (\<lambda>b.
            (\<lparr>rep = b, signs = map (\<lambda>(f, l). f * preferred_sign pps l) (zip fl b)\<rparr>,
             \<lparr>rep = b, signs = map (\<lambda>(f, l). f * preferred_sign pms l) (zip fl b)\<rparr>))
          (product_lists (replicate (nat mw) ''XYZ''))) flips))"
proof -
  let ?g = "\<lambda>fl b. (\<lparr>rep = b, signs = map (\<lambda>(f, l). f * preferred_sign pps l) (zip fl b)\<rparr>,
             \<lparr>rep = b, signs = map (\<lambda>(f, l). f * preferred_sign pms l) (zip fl b)\<rparr>)"
  have inner: "collect (sto_tmpl_pair (base_signs pps) (base_signs pms) fl)
                 (product_lists (replicate (nat mw) ''XYZ''))
        = Inr (map (?g fl) (product_lists (replicate (nat mw) ''XYZ'')))" for fl
    by (rule collect_ok) (auto intro!: sto_tmpl_pair_ok[OF assms(1,2)] dest: product_lists_letters)
  have "collect (\<lambda>fliptup.
              ebind (product_repeat ''XYZ'' mw)
                (collect (sto_tmpl_pair (base_signs pps) (base_signs pms) fliptup))) flips
      = Inr (map (\<lambda>fl. map (?g fl) (product_lists (replicate (nat mw) ''XYZ''))) flips)"
    by (rule collect_ok) (use assms(3) in \<open>simp add: product_repeat_def ebind_def inner\<close>)
  then show ?thesis by (simp add: sto_tmpl_pairs_def ebind_def)
qed

text \<open>
  Claim C5.  With stochastic and affine sequences both included, the sign-flip patterns
  are (no flip), (flip) for maxweight 1 and (no flip), (flip second), (flip first) for
  maxweight 2, without the pattern that flips both; for every maxweight above 2 the call
  fails with NotImplementedError.  For maxweight 1 or 2 (and preferred signs given for X,
  Y and Z) one template pair is built for each flip pattern and each tuple of basis
  letters over X, Y, Z, with the preferred signs multiplied by the flips, and the
  templates are handed to the tiling function.  For nQubits = 2, maxweight = 1 and no
  Hamiltonian sequences exactly 6 template pairs are built before tiling.
\<close>

theorem idle_tomography_fidpairs_flips:
  "sto_flips 1 True = Inr [[1], [- 1]] \<and>
   sto_flips 2 True = Inr [[1, 1], [1, - 1], [- 1, 1]] \<and>
   (2 < maxweight \<longrightarrow>
      idle_tomography_fidpairs tile nQubits maxweight include_hamiltonian True True ham_tmpl pps pms
        = Inl NotImplementedError) \<and>
   (3 \<le> length pps \<and> 3 \<le> length pms \<and> (maxweight = 1 \<or> maxweight = 2) \<longrightarrow>
      (\<exists>flips tmpl.
         sto_flips maxweight True = Inr flips \<and>
         tmpl = concat (map (\<lambda>fl. map (\<lambda>b.
            (\<lparr>rep = b, signs = map (\<lambda>(f, l). f * preferred_sign pps l) (zip fl b)\<rparr>,
             \<lparr>rep = b, signs = map (\<lambda>(f, l). f * preferred_sign pms l) (zip fl b)\<rparr>))
            (product_lists (replicate (nat maxweight) ''XYZ''))) flips) \<and>
         length tmpl = length flips * 3 ^ nat maxweight \<and>
         sto_tmpl_pairs (base_signs pps) (base_signs pms) maxweight flips = Inr tmpl \<and>
         idle_tomography_fidpairs tile nQubits maxweight False True True ham_tmpl pps pms
           = Inr (tile tmpl nQubits maxweight))) \<and>
   (3 \<le> length pps \<and> 3 \<le> length pms \<longrightarrow>
      (\<exists>tmpl. length tmpl = 6 \<and>
         sto_tmpl_pairs (base_signs pps) (base_signs pms) 1 [[1], [- 1]] = Inr tmpl \<and>
         idle_tomography_fidpairs tile 2 1 False True True ham_tmpl pps pms = Inr (tile tmpl 2 1)))"
    (is "?f1 \<and> ?f2 \<and> ?big \<and> ?gen \<and> ?six")
proof -
  have f1: ?f1 by (simp add: sto_flips_def)
  have f2: ?f2 by (simp add: sto_flips_def)
  have big: ?big
    by (simp add: idle_tomography_fidpairs_def sto_flips_def ebind_def Let_def)
  let ?tm = "\<lambda>mw flips. concat (map (\<lambda>fl. map (\<lambda>b.
            (\<lparr>rep = b, signs = map (\<lambda>(f, l). f * preferred_sign pps l) (zip fl b)\<rparr>,
             \<lparr>rep = b, signs = map (\<lambda>(f, l). f * preferred_sign pms l) (zip fl b)\<rparr>))
            (product_lists (replicate (nat mw) ''XYZ''))) flips)"
  have len: "length (?tm mw flips) = length flips * 3 ^ nat mw" for mw flips
  proof -
    have "length (''XYZ'') = (3::nat)" by simp
    then have "length (product_lists (replicate (nat mw) ''XYZ'')) = 3 ^ nat mw"
      by (simp only: length_product_lists_replicate)
    then show ?thesis by (simp add: length_concat o_def sum_list_triv)
  qed
  have run: "idle_tomography_fidpairs tile nq mw False True True ham_tmpl pps pms
           = Inr (tile (?tm mw flips) nq mw)"
    if "3 \<le> length pps" "3 \<le> length pms" "0 \<le> mw" "sto_flips mw True = Inr flips" for mw flips nq
    using that(4) sto_tmpl_pairs_ok[OF that(1,2,3), of flips]
    by (simp add: idle_tomography_fidpairs_def ebind_def Let_def)
  have gen: ?gen
  proof
    assume a: "3 \<le> length pps \<and> 3 \<le> length pms \<and> (maxweight = 1 \<or> maxweight = 2)"
    then obtain flips where fl: "sto_flips maxweight True = Inr flips"
      by (auto simp: sto_flips_def)
    have mw: "0 \<le> maxweight" using a by auto
    show "\<exists>flips tmpl.
         sto_flips maxweight True = Inr flips \<and>
         tmpl = ?tm maxweight flips \<and>
         length tmpl = length flips * 3 ^ nat maxweight \<and>
         sto_tmpl_pairs (base_signs pps) (base_signs pms) maxweight flips = Inr tmpl \<and>
         idle_tomography_fidpairs tile nQubits maxweight False True True ham_tmpl pps pms
           = Inr (tile tmpl nQubits maxweight)"
      apply (rule exI[of _ flips])
      apply (rule exI[of _ "?tm maxweight flips"])
      using fl len[of maxweight flips] sto_tmpl_pairs_ok[of pps pms maxweight flips] a mw
            run[of maxweight flips nQubits]
      by (intro conjI) simp_all
  qed
  have six: ?six
  proof
    assume a: "3 \<le> length pps \<and> 3 \<le> length pms"
    show "\<exists>tmpl. length tmpl = 6 \<and>
         sto_tmpl_pairs (base_signs pps) (base_signs pms) 1 [[1], [- 1]] = Inr tmpl \<and>
         idle_tomography_fidpairs tile 2 1 False True True ham_tmpl pps pms = Inr (tile tmpl 2 1)"
      apply (rule exI[of _ "?tm 1 [[1], [- 1]]"])
      using len[of 1 "[[1], [- 1]]"] sto_tmpl_pairs_ok[of pps pms 1 "[[1], [- 1]]"] a
            run[of 1 "[[1], [- 1]]" 2] f1
      by (intro conjI) simp_all
  qed
  from f1 f2 big gen six show ?thesis by (intro conjI)
qed

text \<open>The theorem applied with the default preferred signs, at maxweight 3, 2 and 1.\<close>

theorem idle_tomography_fidpairs_flips_witness:
  "(2::int) < 3 \<and> 3 \<le> length [''+'', ''+'', ''+''] \<and>
   idle_tomography_fidpairs (\<lambda>t n k. t) 1 3 True True True [] [''+'', ''+'', ''+''] [''+'', ''+'', ''+'']
     = Inl NotImplementedError \<and>
   (\<exists>tmpl. length tmpl = 27 \<and>
      idle_tomography_fidpairs (\<lambda>t n k. t) 2 2 False True True [] [''+'', ''+'', ''+''] [''+'', ''+'', ''+'']
        = Inr tmpl) \<and>
   (\<exists>tmpl. length tmpl = 6 \<and>
      idle_tomography_fidpairs (\<lambda>t n k. t) 2 1 False True True [] [''+'', ''+'', ''+''] [''+'', ''+'', ''+'']
        = Inr tmpl)"
proof -
  let ?p = "[''+'', ''+'', ''+'']"
  let ?tile = "\<lambda>(t :: (NQPauliState \<times> NQPauliState) list) (n::int) (k::int). t"
  note t3 = idle_tomography_fidpairs_flips[of 3 ?tile 1 True "[]" ?p ?p]
  note t2 = idle_tomography_fidpairs_flips[of 2 ?tile 2 True "[]" ?p ?p]
  have h: "3 \<le> length ?p \<and> 3 \<le> length ?p" by simp
  have h2: "3 \<le> length ?p \<and> 3 \<le> length ?p \<and> ((2::int) = 1 \<or> (2::int) = 2)" by simp
  have a: "idle_tomography_fidpairs ?tile 1 3 True True True [] ?p ?p = Inl NotImplementedError"
    using t3[THEN conjunct2, THEN conjunct2, THEN conjunct1] by simp
  have b: "\<exists>tmpl. length tmpl = 27 \<and>
      idle_tomography_fidpairs ?tile 2 2 False True True [] ?p ?p = Inr tmpl"
  proof -
    from t2[THEN conjunct2, THEN conjunct2, THEN conjunct2, THEN conjunct1, THEN mp, OF h2]
    obtain flips tmpl where "sto_flips 2 True = Inr flips"
      "length tmpl = length flips * 3 ^ nat 2"
      "idle_tomography_fidpairs ?tile 2 2 False True True [] ?p ?p = Inr (?tile tmpl 2 2)"
      by blast
    then show ?thesis by (auto simp: sto_flips_def)
  qed
  have c: "\<exists>tmpl. length tmpl = 6 \<and>
      idle_tomography_fidpairs ?tile 2 1 False True True [] ?p ?p = Inr tmpl"
    using t2[THEN conjunct2, THEN conjunct2, THEN conjunct2, THEN conjunct2, THEN mp, OF h]
    by auto
  show ?thesis using a b c by simp
qed

subsection \<open>Hamiltonian templates of idle\_tomography\_fidpairs\<close>

lemma prev_str_ok:
  "set t \<subseteq> set ''XYZ'' \<Longrightarrow>
   prev_str t = Inr (map (\<lambda>c. if c = CHR ''X'' then CHR ''Z'' else if c = CHR ''Y'' then CHR ''X'' else CHR ''Y'') t)"
  unfolding prev_str_def by (rule collect_ok) (auto simp: lookup_def prevPauli_def)

lemma next_str_ok:
  "set t \<subseteq> set ''XYZ'' \<Longrightarrow>
   next_str t = Inr (map (\<lambda>c. if c = CHR ''X'' then CHR ''Y'' else if c = CHR ''Y'' then CHR ''Z'' else CHR ''X'') t)"
  unfolding next_str_def by (rule collect_ok) (auto simp: lookup_def nextPauli_def)

lemma collect_lookup_base_signs:
  assumes "3 \<le> length prefs" "set b \<subseteq> set ''XYZ''"
  shows "collect (lookup (base_signs prefs)) b = Inr (map (preferred_sign prefs) b)"
  by (rule collect_ok) (use assms in \<open>auto intro!: lookup_base_signs\<close>)

lemma ham_tmpl_pair_ok:
  assumes "3 \<le> length pps" "3 \<le> length pms" "set t \<subseteq> set ''XYZ''" "int (length t) = mw"
  shows "ham_tmpl_pair (base_signs pps) (base_signs pms) mw t =
    Inr (\<lparr>rep = map (\<lambda>c. if c = CHR ''X'' then CHR ''Z'' else if c = CHR ''Y'' then CHR ''X'' else CHR ''Y'') t,
          signs = map (preferred_sign pps)
             (map (\<lambda>c. if c = CHR ''X'' then CHR ''Z'' else if c = CHR ''Y'' then CHR ''X'' else CHR ''Y'') t)\<rparr>,
         \<lparr>rep = map (\<lambda>c. if c = CHR ''X'' then CHR ''Y'' else if c = CHR ''Y'' then CHR ''Z'' else CHR ''X'') t,
          signs = map (preferred_sign pms)
             (map (\<lambda>c. if c = CHR ''X'' then CHR ''Y'' else if c = CHR ''Y'' then CHR ''Z'' else CHR ''X'') t)\<rparr>)"
proof -
  let ?pr = "\<lambda>c. if c = CHR ''X'' then CHR ''Z'' else if c = CHR ''Y'' then CHR ''X'' else CHR ''Y''"
  let ?nx = "\<lambda>c. if c = CHR ''X'' then CHR ''Y'' else if c = CHR ''Y'' then CHR ''Z'' else CHR ''X''"
  have p: "set (map ?pr t) \<subseteq> set ''XYZ''" by auto
  have n: "set (map ?nx t) \<subseteq> set ''XYZ''" by auto
  show ?thesis
    unfolding ham_tmpl_pair_def prev_str_ok[OF assms(3)] next_str_ok[OF assms(3)]
    using collect_lookup_base_signs[OF assms(1) p] collect_lookup_base_signs[OF assms(2) n] assms(4)
    by (simp add: ebind_def)
qed

lemma ham_tmpl_pair_bad_length:
  "int (length t) \<noteq> mw \<Longrightarrow> ham_tmpl_pair bp bm mw t = Inl AssertionError"
  by (simp add: ham_tmpl_pair_def)

lemma ham_tmpl_pair_total_xyz:
  assumes "3 \<le> length pps" "3 \<le> length pms" "set t \<subseteq> set ''XYZ''"
  shows "ham_tmpl_pair (base_signs pps) (base_signs pms) mw t = Inl AssertionError \<or>
         (\<exists>v. ham_tmpl_pair (base_signs pps) (base_signs pms) mw t = Inr v)"
  using ham_tmpl_pair_ok[OF assms] ham_tmpl_pair_bad_length[of t mw] by (cases "int (length t) = mw") auto

text \<open>
  Claim C6.  With Hamiltonian sequences included, idle\_tomography\_fidpairs fails when
  some template string of ham\_tmpl has a length different from maxweight (with the
  assertion error when only Hamiltonian sequences are requested and the templates are
  strings over X, Y, Z).  Otherwise, for templates over X, Y, Z, it builds one template
  pair for each template string: the prep basis letters are the cyclic predecessors
  (X to Z, Y to X, Z to Y) and the meas basis letters the cyclic successors (X to Y,
  Y to Z, Z to X) of the template letters, the signs are the preferred signs of these
  letters, unmodified, and on every qubit the prep basis letter differs from the meas
  basis letter.
\<close>

theorem idle_tomography_fidpairs_hamiltonian:
  "((\<exists>t\<in>set ham_tmpl. int (length t) \<noteq> maxweight) \<longrightarrow>
      (\<exists>e. idle_tomography_fidpairs tile nQubits maxweight True include_stochastic include_affine
              ham_tmpl pps pms = Inl e)) \<and>
   (3 \<le> length pps \<and> 3 \<le> length pms \<and> (\<forall>t\<in>set ham_tmpl. set t \<subseteq> set ''XYZ'') \<and>
    (\<exists>t\<in>set ham_tmpl. int (length t) \<noteq> maxweight) \<longrightarrow>
      idle_tomography_fidpairs tile nQubits maxweight True False False ham_tmpl pps pms
        = Inl AssertionError) \<and>
   (3 \<le> length pps \<and> 3 \<le> length pms \<and>
    (\<forall>t\<in>set ham_tmpl. set t \<subseteq> set ''XYZ'' \<and> int (length t) = maxweight) \<longrightarrow>
      (\<exists>pairs.
         ham_tmpl_pairs (base_signs pps) (base_signs pms) maxweight ham_tmpl = Inr pairs \<and>
         idle_tomography_fidpairs tile nQubits maxweight True False False ham_tmpl pps pms
           = Inr (tile pairs nQubits maxweight) \<and>
         length pairs = length ham_tmpl \<and>
         (\<forall>k<length ham_tmpl.
            length (rep (fst (pairs ! k))) = length (ham_tmpl ! k) \<and>
            length (rep (snd (pairs ! k))) = length (ham_tmpl ! k) \<and>
            length (signs (fst (pairs ! k))) = length (ham_tmpl ! k) \<and>
            length (signs (snd (pairs ! k))) = length (ham_tmpl ! k) \<and>
            (\<forall>i<length (ham_tmpl ! k).
               rep (fst (pairs ! k)) ! i =
                 (if ham_tmpl ! k ! i = CHR ''X'' then CHR ''Z''
                  else if ham_tmpl ! k ! i = CHR ''Y'' then CHR ''X'' else CHR ''Y'') \<and>
               rep (snd (pairs ! k)) ! i =
                 (if ham_tmpl ! k ! i = CHR ''X'' then CHR ''Y''
                  else if ham_tmpl ! k ! i = CHR ''Y'' then CHR ''Z'' else CHR ''X'') \<and>
               signs (fst (pairs ! k)) ! i = preferred_sign pps (rep (fst (pairs ! k)) ! i) \<and>
               signs (snd (pairs ! k)) ! i = preferred_sign pms (rep (snd (pairs ! k)) ! i) \<and>
               rep (fst (pairs ! k)) ! i \<noteq> rep (snd (pairs ! k)) ! i))))"
    (is "?fails \<and> ?assert \<and> (?pre \<longrightarrow> (\<exists>pairs. ?P pairs))")
proof (intro conjI)
  show ?fails
  proof
    assume "\<exists>t\<in>set ham_tmpl. int (length t) \<noteq> maxweight"
    then obtain t where t: "t \<in> set ham_tmpl" "int (length t) \<noteq> maxweight" by blast
    from collect_some_fail[of t ham_tmpl "ham_tmpl_pair (base_signs pps) (base_signs pms) maxweight",
           OF t(1) ham_tmpl_pair_bad_length[OF t(2)]]
    obtain e' where "ham_tmpl_pairs (base_signs pps) (base_signs pms) maxweight ham_tmpl = Inl e'"
      unfolding ham_tmpl_pairs_def by blast
    then show "\<exists>e. idle_tomography_fidpairs tile nQubits maxweight True include_stochastic
                  include_affine ham_tmpl pps pms = Inl e"
      by (simp add: idle_tomography_fidpairs_def Let_def ebind_def split: sum.splits)
  qed
  show ?assert
  proof
    assume a: "3 \<le> length pps \<and> 3 \<le> length pms \<and> (\<forall>t\<in>set ham_tmpl. set t \<subseteq> set ''XYZ'') \<and>
               (\<exists>t\<in>set ham_tmpl. int (length t) \<noteq> maxweight)"
    have tot: "\<forall>t\<in>set ham_tmpl.
        ham_tmpl_pair (base_signs pps) (base_signs pms) maxweight t = Inl AssertionError \<or>
        (\<exists>v. ham_tmpl_pair (base_signs pps) (base_signs pms) maxweight t = Inr v)"
      using a ham_tmpl_pair_total_xyz[of pps pms _ maxweight] by blast
    have ex: "\<exists>t\<in>set ham_tmpl.
        ham_tmpl_pair (base_signs pps) (base_signs pms) maxweight t = Inl AssertionError"
      using a ham_tmpl_pair_bad_length by blast
    have "ham_tmpl_pairs (base_signs pps) (base_signs pms) maxweight ham_tmpl = Inl AssertionError"
      unfolding ham_tmpl_pairs_def by (rule collect_fail[OF tot ex])
    then show "idle_tomography_fidpairs tile nQubits maxweight True False False ham_tmpl pps pms
        = Inl AssertionError"
      by (simp add: idle_tomography_fidpairs_def Let_def ebind_def)
  qed
  show "?pre \<longrightarrow> (\<exists>pairs. ?P pairs)"
  proof
    assume pre: ?pre
    let ?pr = "\<lambda>c. if c = CHR ''X'' then CHR ''Z'' else if c = CHR ''Y'' then CHR ''X'' else CHR ''Y''"
    let ?nx = "\<lambda>c. if c = CHR ''X'' then CHR ''Y'' else if c = CHR ''Y'' then CHR ''Z'' else CHR ''X''"
    let ?g = "\<lambda>t. (\<lparr>rep = map ?pr t, signs = map (preferred_sign pps) (map ?pr t)\<rparr>,
                   \<lparr>rep = map ?nx t, signs = map (preferred_sign pms) (map ?nx t)\<rparr>)"
    let ?pairs = "map ?g ham_tmpl"
    have ok: "\<forall>t\<in>set ham_tmpl. ham_tmpl_pair (base_signs pps) (base_signs pms) maxweight t = Inr (?g t)"
      using pre ham_tmpl_pair_ok[of pps pms _ maxweight] by blast
    have r: "ham_tmpl_pairs (base_signs pps) (base_signs pms) maxweight ham_tmpl = Inr ?pairs"
      unfolding ham_tmpl_pairs_def by (rule collect_ok[OF ok])
    have f: "idle_tomography_fidpairs tile nQubits maxweight True False False ham_tmpl pps pms
           = Inr (tile ?pairs nQubits maxweight)"
      using r by (simp add: idle_tomography_fidpairs_def Let_def ebind_def)
    have l: "length ?pairs = length ham_tmpl" by simp
    have q: "\<forall>k<length ham_tmpl.
            length (rep (fst (?pairs ! k))) = length (ham_tmpl ! k) \<and>
            length (rep (snd (?pairs ! k))) = length (ham_tmpl ! k) \<and>
            length (signs (fst (?pairs ! k))) = length (ham_tmpl ! k) \<and>
            length (signs (snd (?pairs ! k))) = length (ham_tmpl ! k) \<and>
            (\<forall>i<length (ham_tmpl ! k).
               rep (fst (?pairs ! k)) ! i = ?pr (ham_tmpl ! k ! i) \<and>
               rep (snd (?pairs ! k)) ! i = ?nx (ham_tmpl ! k ! i) \<and>
               signs (fst (?pairs ! k)) ! i = preferred_sign pps (rep (fst (?pairs ! k)) ! i) \<and>
               signs (snd (?pairs ! k)) ! i = preferred_sign pms (rep (snd (?pairs ! k)) ! i) \<and>
               rep (fst (?pairs ! k)) ! i \<noteq> rep (snd (?pairs ! k)) ! i)"
      by simp
    show "\<exists>pairs. ?P pairs"
      by (rule exI[of _ ?pairs]) (intro conjI r f l q)
  qed
qed

text \<open>The theorem applied to a template list with a string of the wrong length and to a good one.\<close>

theorem idle_tomography_fidpairs_hamiltonian_witness:
  "int (length ''X'') \<noteq> 2 \<and>
   idle_tomography_fidpairs (\<lambda>t n k. t) 2 2 True False False [''ZY'', ''X'']
      [''+'', ''+'', ''+''] [''+'', ''+'', ''+''] = Inl AssertionError \<and>
   int (length ''ZY'') = 2 \<and> int (length ''ZX'') = 2 \<and>
   (\<exists>pairs. idle_tomography_fidpairs (\<lambda>t n k. t) 2 2 True False False [''ZY'', ''ZX'']
               [''+'', ''+'', ''+''] [''+'', ''+'', ''+''] = Inr pairs \<and>
            length pairs = 2 \<and>
            rep (fst (pairs ! 0)) ! 0 = CHR ''Y'' \<and> rep (snd (pairs ! 0)) ! 0 = CHR ''X'' \<and>
            rep (fst (pairs ! 0)) ! 1 = CHR ''X'' \<and> rep (snd (pairs ! 0)) ! 1 = CHR ''Z'')"
proof -
  let ?p = "[''+'', ''+'', ''+'']"
  let ?tile = "\<lambda>(t :: (NQPauliState \<times> NQPauliState) list) (n::int) (k::int). t"
  have h1: "3 \<le> length ?p \<and> 3 \<le> length ?p \<and> (\<forall>t\<in>set [''ZY'', ''X'']. set t \<subseteq> set ''XYZ'') \<and>
            (\<exists>t\<in>set [''ZY'', ''X'']. int (length t) \<noteq> 2)" by simp
  have h2: "3 \<le> length ?p \<and> 3 \<le> length ?p \<and>
            (\<forall>t\<in>set [''ZY'', ''ZX'']. set t \<subseteq> set ''XYZ'' \<and> int (length t) = 2)" by simp
  note t1 = idle_tomography_fidpairs_hamiltonian[of "[''ZY'', ''X'']" 2 ?tile 2 False False ?p ?p,
               THEN conjunct2, THEN conjunct1, THEN mp, OF h1]
  note t2 = idle_tomography_fidpairs_hamiltonian[of "[''ZY'', ''ZX'']" 2 ?tile 2 False False ?p ?p,
               THEN conjunct2, THEN conjunct2, THEN mp, OF h2]
  have b: "\<exists>pairs. idle_tomography_fidpairs ?tile 2 2 True False False [''ZY'', ''ZX''] ?p ?p = Inr pairs \<and>
            length pairs = 2 \<and>
            rep (fst (pairs ! 0)) ! 0 = CHR ''Y'' \<and> rep (snd (pairs ! 0)) ! 0 = CHR ''X'' \<and>
            rep (fst (pairs ! 0)) ! 1 = CHR ''X'' \<and> rep (snd (pairs ! 0)) ! 1 = CHR ''Z''"
    using t2 apply (elim exE conjE)
    subgoal for pairs
      apply (drule spec[of _ 0])
      apply (rule exI[of _ pairs])
      apply (simp add: less_2_cases_iff all_conj_distrib)
      done
    done
  show ?thesis using t1 b h1 h2 by simp
qed

subsection \<open>Observable weight in get\_obs\_hamiltonian\_err\_rate\<close>

lemma obs_indices_letters:
  "map ((!) observable) (filter (\<lambda>i. P (observable ! i)) [0..<length observable]) = filter P observable"
proof -
  have "filter P observable = filter P (map ((!) observable) [0..<length observable])"
    by (simp only: map_nth)
  also have "\<dots> = map ((!) observable) (filter (P \<circ> (!) observable) [0..<length observable])"
    by (simp only: filter_map)
  finally show ?thesis by (simp add: o_def)
qed

lemma length_obs_indices:
  "length (filter (\<lambda>i. observable ! i \<noteq> CHR ''I'') [0..<length observable])
     = length (filter (\<lambda>c. c \<noteq> CHR ''I'') observable)"
  using arg_cong[OF obs_indices_letters[of observable "\<lambda>c. c \<noteq> CHR ''I''"], of length]
  by simp

lemma collect_index_ok:
  "\<forall>i\<in>set is. i < length xs \<Longrightarrow> collect (index xs) is = Inr (map ((!) xs) is)"
  by (rule collect_ok) (simp add: index_def)

lemma unsigned_exptn_and_weight_weight:
  "ds g = Some drow \<Longrightarrow> length observed_indices \<noteq> 1 \<Longrightarrow> length observed_indices \<noteq> 2 \<Longrightarrow>
   unsigned_exptn_and_weight ds g observed_indices = Inl NotImplementedError"
  by (simp add: unsigned_exptn_and_weight_def ebind_def)

text \<open>
  Claim C10.  For a non-empty sweep of lengths whose first circuit is in the dataset (and
  an observable no longer than the measurement state), get\_obs\_hamiltonian\_err\_rate
  raises NotImplementedError for every observable whose number of letters other than I
  is neither 1 nor 2: not only for weight above 2, but also for the all-identity
  observable of weight 0.
\<close>

theorem get_obs_hamiltonian_err_rate_weight:
  assumes weight: "length (filter (\<lambda>c. c \<noteq> CHR ''I'') observable) \<noteq> 1"
                  "length (filter (\<lambda>c. c \<noteq> CHR ''I'') observable) \<noteq> 2"
    and meas: "length observable \<le> length (signs pauli_meas)"
    and sweep: "maxLengths = L # Ls"
    and row: "ds (idle_circuit (to_gatestring pauli_prep prepDict) GiStr L
                    (to_gatestring pauli_meas measDict)) = Some drow"
  shows "get_obs_hamiltonian_err_rate polyfit to_gatestring ds (pauli_prep, pauli_meas)
           (prepDict, measDict) GiStr observable maxLengths fitOrder = Inl NotImplementedError"
proof -
  let ?ix = "filter (\<lambda>i. observable ! i \<noteq> CHR ''I'') [0..<length observable]"
  have w: "length ?ix \<noteq> 1" "length ?ix \<noteq> 2"
    unfolding length_obs_indices by (rule weight)+
  have "\<forall>i\<in>set ?ix. i < length (signs pauli_meas)" using meas by auto
  then have s: "collect (index (signs pauli_meas)) ?ix = Inr (map ((!) (signs pauli_meas)) ?ix)"
    by (rule collect_index_ok)
  have d: "hamiltonian_data_to_fit ds (to_gatestring pauli_prep prepDict)
             (to_gatestring pauli_meas measDict) GiStr ?ix ms maxLengths = Inl NotImplementedError" for ms
    unfolding hamiltonian_data_to_fit_def sweep
    by (simp add: unsigned_exptn_and_weight_weight[of ds "idle_circuit (to_gatestring pauli_prep prepDict)
              GiStr L (to_gatestring pauli_meas measDict)" drow ?ix, OF row w] ebind_def)
  show ?thesis
    unfolding get_obs_hamiltonian_err_rate_def Let_def prod.case s
    by (simp add: ebind_def d)
qed

text \<open>The theorem applied to the all-identity observable on two qubits and to a weight-3 observable.\<close>

theorem get_obs_hamiltonian_err_rate_weight_witness:
  "length (filter (\<lambda>c. c \<noteq> CHR ''I'') ''II'') = 0 \<and>
   get_obs_hamiltonian_err_rate (\<lambda>x y deg w. Inr [0, 0]) (\<lambda>st d. [])
       (\<lambda>g. Some \<lparr>counts = [(''00'', 10)], total = 10\<rparr>)
       (\<lparr>rep = ''ZX'', signs = [1, 1]\<rparr>, \<lparr>rep = ''XY'', signs = [1, 1]\<rparr>) ([], [])
       [''Gi''] ''II'' [1, 2] 1 = Inl NotImplementedError \<and>
   length (filter (\<lambda>c. c \<noteq> CHR ''I'') ''XYZ'') = 3 \<and>
   get_obs_hamiltonian_err_rate (\<lambda>x y deg w. Inr [0, 0]) (\<lambda>st d. [])
       (\<lambda>g. Some \<lparr>counts = [(''000'', 10)], total = 10\<rparr>)
       (\<lparr>rep = ''ZXY'', signs = [1, 1, 1]\<rparr>, \<lparr>rep = ''XYZ'', signs = [1, 1, 1]\<rparr>) ([], [])
       [''Gi''] ''XYZ'' [1, 2] 1 = Inl NotImplementedError"
proof -
  have a: "get_obs_hamiltonian_err_rate (\<lambda>x y deg w. Inr [0, 0]) (\<lambda>st d. [])
       (\<lambda>g. Some \<lparr>counts = [(''00'', 10)], total = 10\<rparr>)
       (\<lparr>rep = ''ZX'', signs = [1, 1]\<rparr>, \<lparr>rep = ''XY'', signs = [1, 1]\<rparr>) ([], [])
       [''Gi''] ''II'' [1, 2] 1 = Inl NotImplementedError"
    by (rule get_obs_hamiltonian_err_rate_weight[where L = 1 and Ls = "[2]"
              and drow = "\<lparr>counts = [(''00'', 10)], total = 10\<rparr>"]) simp_all
  have b: "get_obs_hamiltonian_err_rate (\<lambda>x y deg w. Inr [0, 0]) (\<lambda>st d. [])
       (\<lambda>g. Some \<lparr>counts = [(''000'', 10)], total = 10\<rparr>)
       (\<lparr>rep = ''ZXY'', signs = [1, 1, 1]\<rparr>, \<lparr>rep = ''XYZ'', signs = [1, 1, 1]\<rparr>) ([], [])
       [''Gi''] ''XYZ'' [1, 2] 1 = Inl NotImplementedError"
    by (rule get_obs_hamiltonian_err_rate_weight[where L = 1 and Ls = "[2]"
              and drow = "\<lparr>counts = [(''000'', 10)], total = 10\<rparr>"]) simp_all
  show ?thesis using a b by simp
qed

subsection \<open>The observed rate of a fit\<close>

lemma sto_rate:
  assumes "stochastic_data_to_fit ds (to_gatestring prep prepDict) (to_gatestring meas measDict)
             GiStr outcome maxLengths = Inr pts"
    and "polyfit (map real_of_int maxLengths) (map fst pts) fitOrder (map snd pts) = Inr coeffs"
    and "length coeffs = nat fitOrder + 1"
  shows "map_sum id info_rate (get_obs_stochastic_err_rate polyfit to_gatestring ds (prep, meas)
           (prepDict, measDict) GiStr outcome maxLengths fitOrder) =
         (if fitOrder = 1 then Inr (coeffs ! 0)
          else if fitOrder = 2 then
            Inr (if 0 \<le> (coeffs ! 1)\<^sup>2 - 4 * coeffs ! 2 * coeffs ! 0
                 then - sgn (coeffs ! 0) * sqrt ((coeffs ! 1)\<^sup>2 - 4 * coeffs ! 2 * coeffs ! 0)
                 else coeffs ! 1)
          else Inl NotImplementedError)"
  using assms(3)
  by (simp add: get_obs_stochastic_err_rate_def assms(1,2) ebind_def index_def Let_def)

lemma ham_rate:
  assumes "collect (index (signs meas))
             (filter (\<lambda>i. observable ! i \<noteq> CHR ''I'') [0..<length observable]) = Inr ss"
    and "hamiltonian_data_to_fit ds (to_gatestring prep prepDict) (to_gatestring meas measDict)
             GiStr (filter (\<lambda>i. observable ! i \<noteq> CHR ''I'') [0..<length observable])
             (np_prod ss) maxLengths = Inr pts"
    and "polyfit (map real_of_int maxLengths) (map fst pts) fitOrder (map snd pts) = Inr coeffs"
    and "length coeffs = nat fitOrder + 1"
  shows "map_sum id info_rate (get_obs_hamiltonian_err_rate polyfit to_gatestring ds (prep, meas)
           (prepDict, measDict) GiStr observable maxLengths fitOrder) =
         (if fitOrder = 1 then Inr (coeffs ! 0)
          else if fitOrder = 2 then
            Inr (if 0 \<le> (coeffs ! 1)\<^sup>2 - 4 * coeffs ! 2 * coeffs ! 0
                 then - sgn (coeffs ! 0) * sqrt ((coeffs ! 1)\<^sup>2 - 4 * coeffs ! 2 * coeffs ! 0)
                 else coeffs ! 1)
          else Inl NotImplementedError)"
  using assms(4)
  by (simp add: get_obs_hamiltonian_err_rate_def assms(1,2,3) ebind_def index_def Let_def)

lemma quadratic_root_slope:
  fixes a b c :: real
  assumes "a \<noteq> 0" "0 \<le> b\<^sup>2 - 4 * c * a"
  defines "x0 \<equiv> (- b - sgn a * sqrt (b\<^sup>2 - 4 * c * a)) / (2 * a)"
  shows "a * x0\<^sup>2 + b * x0 + c = 0"
    and "((\<lambda>x. a * x\<^sup>2 + b * x + c) has_real_derivative - sgn a * sqrt (b\<^sup>2 - 4 * c * a)) (at x0)"
proof -
  define r where "r = sqrt (b\<^sup>2 - 4 * c * a)"
  define s where "s = sgn a"
  have r2: "r\<^sup>2 = b\<^sup>2 - 4 * c * a" using assms(2) by (simp add: r_def)
  have s2: "s\<^sup>2 = 1" using assms(1) by (simp add: s_def sgn_if)
  have x0: "x0 = (- b - s * r) / (2 * a)" by (simp add: x0_def r_def s_def)
  have "2 * a * x0 = - b - s * r" using assms(1) by (simp add: x0)
  then have lin: "2 * a * x0 + b = - s * r" by simp
  have "4 * a * (a * x0\<^sup>2 + b * x0 + c) = (2 * a * x0)\<^sup>2 + 2 * b * (2 * a * x0) + 4 * a * c"
    by (simp add: power2_eq_square algebra_simps)
  also have "\<dots> = (- b - s * r)\<^sup>2 + 2 * b * (- b - s * r) + 4 * a * c"
    using \<open>2 * a * x0 = - b - s * r\<close> by simp
  also have "\<dots> = s\<^sup>2 * r\<^sup>2 - b\<^sup>2 + 4 * a * c"
    by (simp add: power2_eq_square algebra_simps)
  also have "\<dots> = 0" by (simp add: r2 s2)
  finally show "a * x0\<^sup>2 + b * x0 + c = 0" using assms(1) by simp
  have "((\<lambda>x. a * x\<^sup>2 + b * x + c) has_real_derivative 2 * a * x0 + b) (at x0)"
    by (auto intro!: derivative_eq_intros)
  then show "((\<lambda>x. a * x\<^sup>2 + b * x + c) has_real_derivative - sgn a * sqrt (b\<^sup>2 - 4 * c * a)) (at x0)"
    by (simp only: lin) (simp add: s_def r_def)
qed

text \<open>
  Claim C7, as amended.  In get\_obs\_stochastic\_err\_rate and in
  get\_obs\_hamiltonian\_err\_rate, once the data are gathered and polyfit has returned its
  coefficients (highest power first): with fitOrder 1 the rate is the slope coefficient;
  with fitOrder 2 and fitted quadratic a x^2 + b x + c the rate is -sign(a) sqrt(D) when
  the discriminant D = b^2 - 4 a c is nonnegative, and the linear coefficient b when D is
  negative; every other fitOrder, in particular every fitOrder above 2, raises
  NotImplementedError.  For a nonzero, -sign(a) sqrt(D) is the derivative of the fitted
  quadratic at its root (-b - sign(a) sqrt(D)) / (2 a), where the fit crosses zero; it is
  not the derivative at length 0, which is b.
\<close>

theorem observed_rate_from_fit:
  assumes sto: "stochastic_data_to_fit ds (to_gatestring prep prepDict) (to_gatestring meas measDict)
             GiStr outcome maxLengths = Inr spts"
    and sfit: "polyfit (map real_of_int maxLengths) (map fst spts) fitOrder (map snd spts) = Inr scoeffs"
    and slen: "length scoeffs = nat fitOrder + 1"
    and hsigns: "collect (index (signs meas))
             (filter (\<lambda>i. observable ! i \<noteq> CHR ''I'') [0..<length observable]) = Inr ss"
    and ham: "hamiltonian_data_to_fit ds (to_gatestring prep prepDict) (to_gatestring meas measDict)
             GiStr (filter (\<lambda>i. observable ! i \<noteq> CHR ''I'') [0..<length observable])
             (np_prod ss) maxLengths = Inr hpts"
    and hfit: "polyfit (map real_of_int maxLengths) (map fst hpts) fitOrder (map snd hpts) = Inr hcoeffs"
    and hlen: "length hcoeffs = nat fitOrder + 1"
  shows "map_sum id info_rate
           (get_obs_stochastic_err_rate polyfit to_gatestring ds (prep, meas)
              (prepDict, measDict) GiStr outcome maxLengths fitOrder) =
           (if fitOrder = 1 then Inr (scoeffs ! 0)
            else if fitOrder = 2 then
              Inr (if 0 \<le> (scoeffs ! 1)\<^sup>2 - 4 * scoeffs ! 2 * scoeffs ! 0
                   then - sgn (scoeffs ! 0) * sqrt ((scoeffs ! 1)\<^sup>2 - 4 * scoeffs ! 2 * scoeffs ! 0)
                   else scoeffs ! 1)
            else Inl NotImplementedError) \<and>
         map_sum id info_rate
           (get_obs_hamiltonian_err_rate polyfit to_gatestring ds (prep, meas)
              (prepDict, measDict) GiStr observable maxLengths fitOrder) =
           (if fitOrder = 1 then Inr (hcoeffs ! 0)
            else if fitOrder = 2 then
              Inr (if 0 \<le> (hcoeffs ! 1)\<^sup>2 - 4 * hcoeffs ! 2 * hcoeffs ! 0
                   then - sgn (hcoeffs ! 0) * sqrt ((hcoeffs ! 1)\<^sup>2 - 4 * hcoeffs ! 2 * hcoeffs ! 0)
                   else hcoeffs ! 1)
            else Inl NotImplementedError) \<and>
         ((a::real) \<noteq> 0 \<and> 0 \<le> b\<^sup>2 - 4 * c * a \<longrightarrow>
            a * ((- b - sgn a * sqrt (b\<^sup>2 - 4 * c * a)) / (2 * a))\<^sup>2
              + b * ((- b - sgn a * sqrt (b\<^sup>2 - 4 * c * a)) / (2 * a)) + c = 0 \<and>
            ((\<lambda>x. a * x\<^sup>2 + b * x + c) has_real_derivative - sgn a * sqrt (b\<^sup>2 - 4 * c * a))
              (at ((- b - sgn a * sqrt (b\<^sup>2 - 4 * c * a)) / (2 * a))))"
proof (intro conjI impI)
  show "map_sum id info_rate
           (get_obs_stochastic_err_rate polyfit to_gatestring ds (prep, meas)
              (prepDict, measDict) GiStr outcome maxLengths fitOrder) =
           (if fitOrder = 1 then Inr (scoeffs ! 0)
            else if fitOrder = 2 then
              Inr (if 0 \<le> (scoeffs ! 1)\<^sup>2 - 4 * scoeffs ! 2 * scoeffs ! 0
                   then - sgn (scoeffs ! 0) * sqrt ((scoeffs ! 1)\<^sup>2 - 4 * scoeffs ! 2 * scoeffs ! 0)
                   else scoeffs ! 1)
            else Inl NotImplementedError)"
    by (rule sto_rate[where to_gatestring = to_gatestring and prep = prep and prepDict = prepDict
        and meas = meas and measDict = measDict and polyfit = polyfit, OF sto sfit slen])
  show "map_sum id info_rate
           (get_obs_hamiltonian_err_rate polyfit to_gatestring ds (prep, meas)
              (prepDict, measDict) GiStr observable maxLengths fitOrder) =
           (if fitOrder = 1 then Inr (hcoeffs ! 0)
            else if fitOrder = 2 then
              Inr (if 0 \<le> (hcoeffs ! 1)\<^sup>2 - 4 * hcoeffs ! 2 * hcoeffs ! 0
                   then - sgn (hcoeffs ! 0) * sqrt ((hcoeffs ! 1)\<^sup>2 - 4 * hcoeffs ! 2 * hcoeffs ! 0)
                   else hcoeffs ! 1)
            else Inl NotImplementedError)"
    by (rule ham_rate[where to_gatestring = to_gatestring and prep = prep and prepDict = prepDict
        and meas = meas and measDict = measDict and polyfit = polyfit, OF hsigns ham hfit hlen])
next
  assume "a \<noteq> 0 \<and> 0 \<le> b\<^sup>2 - 4 * c * a"
  then have a: "a \<noteq> 0" and d: "0 \<le> b\<^sup>2 - 4 * c * a" by simp_all
  from quadratic_root_slope(1)[OF a d]
  show "a * ((- b - sgn a * sqrt (b\<^sup>2 - 4 * c * a)) / (2 * a))\<^sup>2
              + b * ((- b - sgn a * sqrt (b\<^sup>2 - 4 * c * a)) / (2 * a)) + c = 0" .
  from quadratic_root_slope(2)[OF a d]
  show "((\<lambda>x. a * x\<^sup>2 + b * x + c) has_real_derivative - sgn a * sqrt (b\<^sup>2 - 4 * c * a))
              (at ((- b - sgn a * sqrt (b\<^sup>2 - 4 * c * a)) / (2 * a)))" .
qed

lemma sqrt_64th: "sqrt (1 / 64) = 1 / 8"
  by (rule real_sqrt_unique) (simp_all add: power2_eq_square)

text \<open>
  Claim C7 as stated fails.  On the example dataset the frequencies of outcome 1 at the
  lengths 1, 2, 3 are 3/16, 1/2, 15/16; the quadratic x^2/16 + x/8 passes through these
  three points, so it is the order-2 fit whatever the weights.  Its derivative at length
  0 is 1/8, but the rate returned is -1/8.
\<close>

theorem observed_rate_derivative_counterexample:
  "map_sum id info_data
     (get_obs_stochastic_err_rate (\<lambda>x y deg w. Inr [1 / 16, 1 / 8, 0]) (\<lambda>st d. []) example_dataset
        (\<lparr>rep = ''Z'', signs = [1]\<rparr>, \<lparr>rep = ''Z'', signs = [1]\<rparr>) ([], []) [''Gi''] ''1'' [1, 2, 3] 2)
     = Inr [3 / 16, 1 / 2, 15 / 16] \<and>
   (1 / 16) * 1\<^sup>2 + (1 / 8) * 1 + 0 = (3 / 16 :: real) \<and>
   (1 / 16) * 2\<^sup>2 + (1 / 8) * 2 + 0 = (1 / 2 :: real) \<and>
   (1 / 16) * 3\<^sup>2 + (1 / 8) * 3 + 0 = (15 / 16 :: real) \<and>
   map_sum id info_rate
     (get_obs_stochastic_err_rate (\<lambda>x y deg w. Inr [1 / 16, 1 / 8, 0]) (\<lambda>st d. []) example_dataset
        (\<lparr>rep = ''Z'', signs = [1]\<rparr>, \<lparr>rep = ''Z'', signs = [1]\<rparr>) ([], []) [''Gi''] ''1'' [1, 2, 3] 2)
     = Inr (- 1 / 8) \<and>
   ((\<lambda>x::real. (1 / 16) * x\<^sup>2 + (1 / 8) * x + 0) has_real_derivative 1 / 8) (at 0) \<and>
   \<not> ((\<lambda>x::real. (1 / 16) * x\<^sup>2 + (1 / 8) * x + 0) has_real_derivative - 1 / 8) (at 0)"
proof -
  have d: "((\<lambda>x::real. (1 / 16) * x\<^sup>2 + (1 / 8) * x + 0) has_real_derivative 1 / 8) (at 0)"
    by (auto intro!: derivative_eq_intros)
  have nd: "\<not> ((\<lambda>x::real. (1 / 16) * x\<^sup>2 + (1 / 8) * x + 0) has_real_derivative - 1 / 8) (at 0)"
  proof
    assume "((\<lambda>x::real. (1 / 16) * x\<^sup>2 + (1 / 8) * x + 0) has_real_derivative - 1 / 8) (at 0)"
    from DERIV_unique[OF this d] show False by simp
  qed
  have dat: "map_sum id info_data
     (get_obs_stochastic_err_rate (\<lambda>x y deg w. Inr [1 / 16, 1 / 8, 0]) (\<lambda>st d. []) example_dataset
        (\<lparr>rep = ''Z'', signs = [1]\<rparr>, \<lparr>rep = ''Z'', signs = [1]\<rparr>) ([], []) [''Gi''] ''1'' [1, 2, 3] 2)
     = Inr [3 / 16, 1 / 2, 15 / 16]"
    by (simp add: get_obs_stochastic_err_rate_def stochastic_data_to_fit_def freq_and_weight_def
          example_dataset_def idle_circuit_def ebind_def divide_py_def get_def index_def Let_def
          eval_nat_numeral)
  have rt: "map_sum id info_rate
     (get_obs_stochastic_err_rate (\<lambda>x y deg w. Inr [1 / 16, 1 / 8, 0]) (\<lambda>st d. []) example_dataset
        (\<lparr>rep = ''Z'', signs = [1]\<rparr>, \<lparr>rep = ''Z'', signs = [1]\<rparr>) ([], []) [''Gi''] ''1'' [1, 2, 3] 2)
     = Inr (- 1 / 8)"
    by (simp add: get_obs_stochastic_err_rate_def stochastic_data_to_fit_def freq_and_weight_def
          example_dataset_def idle_circuit_def ebind_def divide_py_def get_def index_def Let_def
          eval_nat_numeral power2_eq_square sqrt_64th)
  show ?thesis using d nd dat rt by (simp add: power2_eq_square)
qed

text \<open>The amended theorem applied to the same example, for both rate functions.\<close>

theorem observed_rate_from_fit_witness:
  "map_sum id info_rate
     (get_obs_stochastic_err_rate (\<lambda>x y deg w. Inr [1 / 16, 1 / 8, 0]) (\<lambda>st d. []) example_dataset
        (\<lparr>rep = ''Z'', signs = [1]\<rparr>, \<lparr>rep = ''Z'', signs = [1]\<rparr>) ([], []) [''Gi''] ''1'' [1, 2, 3] 2)
     = Inr (- 1 / 8) \<and>
   map_sum id info_rate
     (get_obs_hamiltonian_err_rate (\<lambda>x y deg w. Inr [1 / 16, 1 / 8, 0]) (\<lambda>st d. []) example_dataset
        (\<lparr>rep = ''Z'', signs = [1]\<rparr>, \<lparr>rep = ''Z'', signs = [1]\<rparr>) ([], []) [''Gi''] ''Z'' [1, 2, 3] 2)
     = Inr (- 1 / 8) \<and>
   ((\<lambda>x::real. (1 / 16) * x\<^sup>2 + (1 / 8) * x + 0) has_real_derivative - 1 / 8) (at (- 2))"
proof -
  let ?polyfit = "\<lambda>(x::real list) (y::real list) (deg::int) (w::real list). Inr [1 / 16, 1 / 8, 0 :: real] :: error + real list"
  let ?tg = "\<lambda>(st::NQPauliState) (d::pauliDict). [] :: GateString"
  let ?st = "\<lparr>rep = ''Z'', signs = [1]\<rparr>"
  let ?ix = "filter (\<lambda>i. ''Z'' ! i \<noteq> CHR ''I'') [0..<length ''Z'']"
  let ?spts = "projr (stochastic_data_to_fit example_dataset [] [] [''Gi''] ''1'' [1, 2, 3])"
  let ?hpts = "projr (hamiltonian_data_to_fit example_dataset [] [] [''Gi''] ?ix (np_prod [1]) [1, 2, 3])"
  have sto: "stochastic_data_to_fit example_dataset (?tg ?st []) (?tg ?st []) [''Gi''] ''1'' [1, 2, 3]
               = Inr ?spts"
    by (simp add: stochastic_data_to_fit_def freq_and_weight_def example_dataset_def
          idle_circuit_def ebind_def divide_py_def get_def Let_def eval_nat_numeral)
  have sfit: "?polyfit (map real_of_int [1, 2, 3]) (map fst ?spts) 2 (map snd ?spts) = Inr [1 / 16, 1 / 8, 0]"
    by simp
  have len: "length [1 / 16, 1 / 8, 0 :: real] = nat 2 + 1" by simp
  have hsigns: "collect (index (signs ?st)) ?ix = Inr [1]"
    by (simp add: index_def)
  have ham: "hamiltonian_data_to_fit example_dataset (?tg ?st []) (?tg ?st []) [''Gi''] ?ix
               (np_prod [1]) [1, 2, 3] = Inr ?hpts"
    by (simp add: hamiltonian_data_to_fit_def unsigned_exptn_and_weight_def example_dataset_def
          idle_circuit_def ebind_def divide_py_def index_def Let_def np_prod_def eval_nat_numeral)
  have hfit: "?polyfit (map real_of_int [1, 2, 3]) (map fst ?hpts) 2 (map snd ?hpts) = Inr [1 / 16, 1 / 8, 0]"
    by simp
  note t = observed_rate_from_fit[where polyfit = ?polyfit and to_gatestring = ?tg
              and prep = ?st and meas = ?st and prepDict = "[]" and measDict = "[]"
              and a = "1 / 16" and b = "1 / 8" and c = 0,
              OF sto sfit len hsigns ham hfit len]
  show ?thesis using t by (simp add: power2_eq_square sqrt_64th)
qed

subsection \<open>Affine extraction requires stochastic extraction\<close>

lemma preferred_sign_of_letter_error:
  "preferred_sign_of_letter d l = Inl e \<Longrightarrow> e = ValueError"
  by (auto simp: preferred_sign_of_letter_def Let_def split: option.splits if_splits)

lemma preferred_signs_from_paulidict_error:
  "preferred_signs_from_paulidict d = Inl e \<Longrightarrow> e = ValueError"
  unfolding preferred_signs_from_paulidict_def
  by (drule collect_error) (auto dest: preferred_sign_of_letter_error)

text \<open>
  Claim C3.  Whenever affine extraction is requested and stochastic extraction is not,
  idle\_tomography\_fidpairs and do\_idle\_tomography both fail with a ValueError, whatever
  the other arguments are: no fiducial pairs and no results are produced.
\<close>

theorem affine_requires_stochastic:
  assumes "extract_affine" "\<not> extract_stochastic"
  shows "idle_tomography_fidpairs tile nQubits maxweight include_hamiltonian extract_stochastic
           extract_affine ham_tmpl preferred_prep_basis_signs preferred_meas_basis_signs
           = Inl ValueError \<and>
         do_idle_tomography ext nQubits ds maxLengths pauliDicts maxErrWeight GiStr
           extract_hamiltonian extract_stochastic extract_affine opts = Inl ValueError"
proof
  show "idle_tomography_fidpairs tile nQubits maxweight include_hamiltonian extract_stochastic
           extract_affine ham_tmpl preferred_prep_basis_signs preferred_meas_basis_signs
           = Inl ValueError"
    using assms by (simp add: idle_tomography_fidpairs_def Let_def ebind_def)
  obtain prepDict measDict where pd: "pauliDicts = (prepDict, measDict)" by (cases pauliDicts)
  let ?pp = "case opt_preferred_prep_basis_signs opts of
               Some s \<Rightarrow> Inr s | None \<Rightarrow> preferred_signs_from_paulidict prepDict"
  let ?pm = "case opt_preferred_meas_basis_signs opts of
               Some s \<Rightarrow> Inr s | None \<Rightarrow> preferred_signs_from_paulidict measDict"
  have pp: "?pp = Inl ValueError \<or> (\<exists>v. ?pp = Inr v)"
    by (cases ?pp) (auto split: option.splits dest: preferred_signs_from_paulidict_error)
  have pm: "?pm = Inl ValueError \<or> (\<exists>v. ?pm = Inr v)"
    by (cases ?pm) (auto split: option.splits dest: preferred_signs_from_paulidict_error)
  show "do_idle_tomography ext nQubits ds maxLengths pauliDicts maxErrWeight GiStr
           extract_hamiltonian extract_stochastic extract_affine opts = Inl ValueError"
    using pp pm assms
    by (auto simp add: do_idle_tomography_def pd Let_def ebind_def)
qed

text \<open>The theorem applied to a one-qubit call that requests Hamiltonian and affine rates only.\<close>

theorem affine_requires_stochastic_witness:
  "idle_tomography_fidpairs (\<lambda>t n k. t) 1 1 True False True [''X'', ''Y'', ''Z'']
      [''+'', ''+'', ''+''] [''+'', ''+'', ''+''] = Inl ValueError \<and>
   do_idle_tomography (example_externals (\<lambda>J. J)) 1 constant_dataset [1, 2] ([], []) 1 [''Gi'']
      True False True example_options = Inl ValueError"
proof -
  have a: "True" and b: "\<not> False" by simp_all
  from affine_requires_stochastic[OF a b] show ?thesis by blast
qed

subsection \<open>Jacobian rows and the split of the stochastic and affine rates\<close>

lemma sto_jac_row_layout:
  assumes "sto_jac_row ext True errors fp out = Inr row"
  shows "length row = 2 * length errors \<and>
         (\<forall>k<length errors.
            stochastic_jac_element (ext_commute_parity ext) (fst fp) (errors ! k) (snd fp) out
              = Inr (row ! k) \<and>
            affine_jac_element (fst fp) (errors ! k) (snd fp) out = Inr (row ! (length errors + k)))"
proof -
  from assms have "\<exists>Jrow. collect (\<lambda>err. stochastic_jac_element (ext_commute_parity ext) (fst fp) err
                        (snd fp) out) errors = Inr Jrow \<and>
           ebind (collect (\<lambda>err. affine_jac_element (fst fp) err (snd fp) out) errors)
              (\<lambda>aff. Inr (Jrow @ aff)) = Inr row"
    unfolding sto_jac_row_def by (auto dest!: ebind_Inr)
  then obtain Jrow where
    s: "collect (\<lambda>err. stochastic_jac_element (ext_commute_parity ext) (fst fp) err (snd fp) out) errors
          = Inr Jrow"
    and r: "ebind (collect (\<lambda>err. affine_jac_element (fst fp) err (snd fp) out) errors)
              (\<lambda>aff. Inr (Jrow @ aff)) = Inr row"
    by blast
  from ebind_Inr[OF r] obtain aff where
    a: "collect (\<lambda>err. affine_jac_element (fst fp) err (snd fp) out) errors = Inr aff"
    and row: "row = Jrow @ aff" by auto
  from collect_Inr[OF s] collect_Inr[OF a] show ?thesis
    by (simp add: row nth_append)
qed

lemma sto_fidpair_rows_rows:
  assumes "sto_fidpair_rows ext ds maxLengths pauliDicts maxErrWeight GiStr extract_affine errors
             fitOrder fp = Inr rs"
    and "t \<in> set rs"
  shows "\<exists>out. sto_jac_row ext extract_affine errors fp out = Inr (fst (snd t))"
proof -
  let ?outs = "ext_alloutcomes ext (fst fp) (snd fp) maxErrWeight"
  from assms(2) obtain j where j: "j < length rs" "t = rs ! j" by (auto simp: in_set_conv_nth)
  from collect_Inr[OF assms(1)[unfolded sto_fidpair_rows_def]] j
  have "ebind (sto_jac_row ext extract_affine errors fp (?outs ! j)) (\<lambda>Jrow.
         ebind (get_obs_stochastic_err_rate (ext_polyfit ext) (ext_to_gatestring ext) ds
                  fp pauliDicts GiStr (?outs ! j) maxLengths fitOrder) (\<lambda>info.
         Inr (?outs ! j, Jrow, with_rows info Jrow None))) = Inr t"
    by simp
  then show ?thesis by (auto dest!: ebind_Inr)
qed

lemma sto_collect_rows:
  assumes "sto_collect ext ds maxLengths pauliDicts maxErrWeight GiStr extract_affine errors
             fitOrder pauli_fidpairs = Inr (my_J, infos)"
    and "row \<in> set my_J"
  shows "\<exists>fp\<in>set pauli_fidpairs. \<exists>out. sto_jac_row ext extract_affine errors fp out = Inr row"
proof -
  from assms(1) obtain per where
    per: "collect (sto_fidpair_rows ext ds maxLengths pauliDicts maxErrWeight GiStr extract_affine
                     errors fitOrder) pauli_fidpairs = Inr per"
    and J: "my_J = concat (map (map (fst \<circ> snd)) per)"
    unfolding sto_collect_def by (auto dest!: ebind_Inr)
  from assms(2) J obtain rs t where rs: "rs \<in> set per" "t \<in> set rs" "row = fst (snd t)"
    by auto
  from rs(1) obtain i where i: "i < length per" "rs = per ! i" by (auto simp: in_set_conv_nth)
  from collect_Inr[OF per] i
  have len: "i < length pauli_fidpairs"
    and fr: "sto_fidpair_rows ext ds maxLengths pauliDicts maxErrWeight GiStr extract_affine errors
           fitOrder (pauli_fidpairs ! i) = Inr rs"
    by simp_all
  from sto_fidpair_rows_rows[OF fr rs(2)] len rs(3) show ?thesis
    by (auto intro: bexI[of _ "pauli_fidpairs ! i"])
qed

lemma stochastic_stage_separate:
  assumes "stochastic_stage ext nQubits ds maxLengths pauliDicts maxErrWeight GiStr True
             opts ''separate'' pps pms sb errors fitOrder loc = Inr loc'"
  shows "\<exists>pauli_fidpairs my_J infos v.
           sto_collect ext ds maxLengths pauliDicts maxErrWeight GiStr True errors fitOrder
             pauli_fidpairs = Inr (my_J, infos) \<and>
           pinv_rates ext (map (map real_of_int) my_J) (obs_rates_of infos) = Inr v \<and>
           intrinsic_rates loc' =
             AList.update ''affine'' (drop (length v div 2) v)
               (AList.update ''stochastic'' (take (length v div 2) v) (intrinsic_rates loc))"
proof -
  from ebind_Inr[OF assms[unfolded stochastic_stage_def]] obtain pauli_fidpairs where
    r1: "ebind (sto_collect ext ds maxLengths pauliDicts maxErrWeight GiStr True errors
              fitOrder pauli_fidpairs)
       (\<lambda>(my_J, infos_by_fidpair).
     let J = map (map real_of_int) my_J;
         obs_err_rates = obs_rates_of infos_by_fidpair
     in
       ebind (pinv_rates ext J obs_err_rates) (\<lambda>intrinsic_stochastic_rates.
           (let Nrates = length intrinsic_stochastic_rates in
            Inr (store ''stochastic/affine'' pauli_fidpairs infos_by_fidpair
                   (loc\<lparr>intrinsic_rates :=
                          AList.update ''affine'' (drop (Nrates div 2) intrinsic_stochastic_rates)
                            (AList.update ''stochastic'' (take (Nrates div 2) intrinsic_stochastic_rates)
                               (intrinsic_rates loc))\<rparr>))))) = Inr loc'"
    by auto
  from ebind_Inr[OF r1] obtain my_J infos where
    c: "sto_collect ext ds maxLengths pauliDicts maxErrWeight GiStr True errors fitOrder
          pauli_fidpairs = Inr (my_J, infos)"
    and r2: "ebind (pinv_rates ext (map (map real_of_int) my_J) (obs_rates_of infos))
         (\<lambda>intrinsic_stochastic_rates.
            Inr (store ''stochastic/affine'' pauli_fidpairs infos
                   (loc\<lparr>intrinsic_rates :=
                          AList.update ''affine''
                            (drop (length intrinsic_stochastic_rates div 2) intrinsic_stochastic_rates)
                            (AList.update ''stochastic''
                               (take (length intrinsic_stochastic_rates div 2) intrinsic_stochastic_rates)
                               (intrinsic_rates loc))\<rparr>))) = Inr loc'"
    by (auto simp: Let_def)
  from ebind_Inr[OF r2] obtain v where
    v: "pinv_rates ext (map (map real_of_int) my_J) (obs_rates_of infos) = Inr v"
    and l: "loc' = store ''stochastic/affine'' pauli_fidpairs infos
                   (loc\<lparr>intrinsic_rates :=
                          AList.update ''affine'' (drop (length v div 2) v)
                            (AList.update ''stochastic'' (take (length v div 2) v)
                               (intrinsic_rates loc))\<rparr>)"
    by auto
  show ?thesis using c v l by (auto simp: store_def)
qed

lemma hamiltonian_stage_separate:
  assumes "hamiltonian_stage ext nQubits ds maxLengths pauliDicts maxErrWeight GiStr extract_affine
             opts ''separate'' pps pms db errors fitOrder loc = Inr loc'"
  shows "\<exists>v. intrinsic_rates loc' = AList.update ''hamiltonian'' v (intrinsic_rates loc)"
proof -
  from ebind_Inr[OF assms[unfolded hamiltonian_stage_def]] obtain pauli_fidpairs where
    r1: "ebind (ham_collect ext ds maxLengths pauliDicts maxErrWeight GiStr extract_affine errors
              fitOrder pauli_fidpairs)
       (\<lambda>(my_J, my_Jaff, infos_by_fidpair).
     let J = map (map real_of_int) my_J;
         obs_err_rates = obs_rates_of infos_by_fidpair
     in
       ebind (if extract_affine then
                (let Jaff = map (map real_of_int) my_Jaff in
                 ebind (lookup (intrinsic_rates loc) ''affine'') (\<lambda>Aintrinsic.
                 ebind (dot Jaff Aintrinsic) (\<lambda>corr.
                 subtract_in_place obs_err_rates corr)))
              else Inr obs_err_rates) (\<lambda>obs_err_rates.
       ebind (pinv_rates ext J obs_err_rates) (\<lambda>intrinsic_hamiltonian_rates.
       Inr (store ''hamiltonian'' pauli_fidpairs infos_by_fidpair
              (loc\<lparr>intrinsic_rates :=
                     AList.update ''hamiltonian'' intrinsic_hamiltonian_rates (intrinsic_rates loc)\<rparr>))))) = Inr loc'"
    by auto
  from ebind_Inr[OF r1] show ?thesis
    by (auto simp: Let_def store_def dest!: ebind_Inr)
qed

lemma pinv_rates_length:
  "pinv_rates ext J obs = Inr v \<Longrightarrow> length v = length (ext_pinv ext J)"
  by (auto simp: pinv_rates_def dot_def Let_def dest!: ebind_Inr split: if_splits)

text \<open>
  Claim C8.  In a run of jacobian mode separate that extracts stochastic and affine rates
  and returns a result: every row of the stochastic-stage Jacobian has two entries per
  enumerated error, the stochastic elements of all errors followed by the affine
  elements of the same errors in the same order; the vector v obtained from the
  pseudo-inverse has as many entries as the pseudo-inverse has rows; the stochastic
  rates reported are the first half of v (the first len(v) div 2 entries) and the affine
  rates the rest, so that together they are v; and when v has two entries per error
  each half has one entry per error.
\<close>

theorem stochastic_affine_rates_split:
  assumes run: "do_idle_tomography ext nQubits ds maxLengths pauliDicts maxErrWeight GiStr
                  extract_hamiltonian True True opts = Inr res"
    and mode: "opt_jacobian_mode opts = None \<or> opt_jacobian_mode opts = Some ''separate''"
  shows "\<exists>pauli_fidpairs my_J infos v.
     sto_collect ext ds maxLengths pauliDicts maxErrWeight GiStr True (res_errors res)
       (res_fitOrder res) pauli_fidpairs = Inr (my_J, infos) \<and>
     (\<forall>row\<in>set my_J.
        length row = 2 * length (res_errors res) \<and>
        (\<exists>fp\<in>set pauli_fidpairs. \<exists>out. \<forall>k<length (res_errors res).
           stochastic_jac_element (ext_commute_parity ext) (fst fp) (res_errors res ! k) (snd fp) out
             = Inr (row ! k) \<and>
           affine_jac_element (fst fp) (res_errors res ! k) (snd fp) out
             = Inr (row ! (length (res_errors res) + k)))) \<and>
     pinv_rates ext (map (map real_of_int) my_J) (obs_rates_of infos) = Inr v \<and>
     length v = length (ext_pinv ext (map (map real_of_int) my_J)) \<and>
     map_of (res_intrinsic_rates res) ''stochastic'' = Some (take (length v div 2) v) \<and>
     map_of (res_intrinsic_rates res) ''affine'' = Some (drop (length v div 2) v) \<and>
     take (length v div 2) v @ drop (length v div 2) v = v \<and>
     (length v = 2 * length (res_errors res) \<longrightarrow>
        length (take (length v div 2) v) = length (res_errors res) \<and>
        length (drop (length v div 2) v) = length (res_errors res))"
proof -
  obtain prepDict measDict where pd: "pauliDicts = (prepDict, measDict)" by (cases pauliDicts)
  have jm: "(case opt_jacobian_mode opts of Some m \<Rightarrow> m | None \<Rightarrow> ''separate'') = ''separate''"
    using mode by auto
  let ?errors = "ext_allerrors ext nQubits maxErrWeight"
  let ?fitOrder = "case opt_fit_order opts of Some k \<Rightarrow> k | None \<Rightarrow> 1"
  let ?loc0 = "\<lparr>intrinsic_rates = [], pauli_fidpair_dict = [], observed_rate_infos = [],
                  sto_aff_jac = None, sto_aff_obs_err_rates = None,
                  ham_aff_jac = None, ham_aff_obs_err_rates = None\<rparr>"
  from run obtain pps pms sb db loc1 loc2 where
    s1: "stochastic_stage ext nQubits ds maxLengths pauliDicts maxErrWeight GiStr True opts
           ''separate'' pps pms sb ?errors ?fitOrder ?loc0 = Inr loc1"
    and s2: "(if extract_hamiltonian then
               hamiltonian_stage ext nQubits ds maxLengths pauliDicts maxErrWeight GiStr
                 True opts ''separate'' pps pms db ?errors ?fitOrder loc1
             else Inr loc1) = Inr loc2"
    and res: "res = \<lparr>res_dataset = ds, res_maxLengths = maxLengths, res_maxErrWeight = maxErrWeight,
           res_fitOrder = ?fitOrder, res_errors = ?errors,
           res_intrinsic_rates = intrinsic_rates loc2,
           res_pauli_fidpair_dict = pauli_fidpair_dict loc2,
           res_observed_rate_infos = observed_rate_infos loc2\<rparr>"
    unfolding do_idle_tomography_def pd prod.case Let_def jm
    by (auto dest!: ebind_Inr)
  from stochastic_stage_separate[OF s1] obtain pauli_fidpairs my_J infos v where
    c: "sto_collect ext ds maxLengths pauliDicts maxErrWeight GiStr True ?errors ?fitOrder
             pauli_fidpairs = Inr (my_J, infos)"
    and v: "pinv_rates ext (map (map real_of_int) my_J) (obs_rates_of infos) = Inr v"
    and i1: "intrinsic_rates loc1 =
             AList.update ''affine'' (drop (length v div 2) v)
               (AList.update ''stochastic'' (take (length v div 2) v) [])"
    by auto
  have i2: "map_of (intrinsic_rates loc2) ''stochastic'' = Some (take (length v div 2) v) \<and>
            map_of (intrinsic_rates loc2) ''affine'' = Some (drop (length v div 2) v)"
  proof (cases extract_hamiltonian)
    case False
    with s2 have "loc2 = loc1" by simp
    then show ?thesis by (simp add: i1)
  next
    case True
    with s2 have "hamiltonian_stage ext nQubits ds maxLengths pauliDicts maxErrWeight GiStr
                 True opts ''separate'' pps pms db ?errors ?fitOrder loc1 = Inr loc2" by simp
    from hamiltonian_stage_separate[OF this] obtain h where
      "intrinsic_rates loc2 = AList.update ''hamiltonian'' h (intrinsic_rates loc1)"
      by blast
    then show ?thesis by (simp add: i1 update_conv')
  qed
  have rows: "\<forall>row\<in>set my_J.
        length row = 2 * length ?errors \<and>
        (\<exists>fp\<in>set pauli_fidpairs. \<exists>out. \<forall>k<length ?errors.
           stochastic_jac_element (ext_commute_parity ext) (fst fp) (?errors ! k) (snd fp) out
             = Inr (row ! k) \<and>
           affine_jac_element (fst fp) (?errors ! k) (snd fp) out
             = Inr (row ! (length ?errors + k)))"
  proof
    fix row assume "row \<in> set my_J"
    from sto_collect_rows[OF c this] obtain fp out where
      fp: "fp \<in> set pauli_fidpairs" "sto_jac_row ext True ?errors fp out = Inr row" by blast
    from sto_jac_row_layout[OF fp(2)] fp(1)
    show "length row = 2 * length ?errors \<and>
        (\<exists>fp\<in>set pauli_fidpairs. \<exists>out. \<forall>k<length ?errors.
           stochastic_jac_element (ext_commute_parity ext) (fst fp) (?errors ! k) (snd fp) out
             = Inr (row ! k) \<and>
           affine_jac_element (fst fp) (?errors ! k) (snd fp) out
             = Inr (row ! (length ?errors + k)))"
      by blast
  qed
  have halves: "length v = 2 * length ?errors \<longrightarrow>
        length (take (length v div 2) v) = length ?errors \<and>
        length (drop (length v div 2) v) = length ?errors"
    by simp
  show ?thesis
    apply (rule exI[of _ pauli_fidpairs])
    apply (rule exI[of _ my_J])
    apply (rule exI[of _ infos])
    apply (rule exI[of _ v])
    using c rows v pinv_rates_length[OF v] i2 halves
    by (simp add: res)
qed

text \<open>
  The theorem applied to the one-qubit run on the constant dataset, where all rates are 0.
\<close>

theorem stochastic_affine_rates_split_witness:
  "\<exists>res v. do_idle_tomography (example_externals (\<lambda>J. example_sto_aff_pinv)) 1 constant_dataset
               [1, 2] ([], []) 1 [''Gi''] False True True example_options = Inr res \<and>
           opt_jacobian_mode example_options = None \<and>
           length v = 6 \<and>
           map_of (res_intrinsic_rates res) ''stochastic'' = Some (take 3 v) \<and>
           map_of (res_intrinsic_rates res) ''affine'' = Some (drop 3 v) \<and>
           map_of (res_intrinsic_rates res) ''stochastic'' = Some [0, 0, 0] \<and>
           map_of (res_intrinsic_rates res) ''affine'' = Some [0, 0, 0]"
proof -
  let ?run = "do_idle_tomography (example_externals (\<lambda>J. example_sto_aff_pinv)) 1 constant_dataset
               [1, 2] ([], []) 1 [''Gi''] False True True example_options"
  have run: "?run = Inr (projr ?run)"
    by (simp add: model_defs example_sto_aff_pinv_def)
  have mode: "opt_jacobian_mode example_options = None \<or>
              opt_jacobian_mode example_options = Some ''separate''"
    by (simp add: example_options_def)
  from stochastic_affine_rates_split[OF run mode] obtain v where
    v: "length v = length example_sto_aff_pinv" "True"
       "map_of (res_intrinsic_rates (projr ?run)) ''stochastic'' = Some (take (length v div 2) v)"
       "map_of (res_intrinsic_rates (projr ?run)) ''affine'' = Some (drop (length v div 2) v)"
    by (auto simp: example_externals_def)
  have len: "length v = 6" using v(1) by (simp add: example_sto_aff_pinv_def)
  have vals: "map_of (res_intrinsic_rates (projr ?run)) ''stochastic'' = Some [0, 0, 0]"
             "map_of (res_intrinsic_rates (projr ?run)) ''affine'' = Some [0, 0, 0]"
    by (simp_all add: model_defs example_sto_aff_pinv_def)
  show ?thesis
    apply (rule exI[of _ "projr ?run"])
    apply (rule exI[of _ v])
    using run v(3,4) len vals by (simp add: example_options_def)
qed

subsection \<open>Rank-deficient design matrices\<close>

text \<open>Whenever the rank is below the number of columns, the rank test raises NameError.\<close>

lemma pinv_rates_rank_deficient:
  assumes "J = r # rs" "ext_matrix_rank ext J < length r"
  shows "pinv_rates ext J obs_err_rates = Inl (NameError ''_warnings'')"
  using assms
  by (simp add: pinv_rates_def shape1_def warn_if_rank_deficient_def global_name_def
        module_globals_def ebind_def Let_def)

text \<open>
  Claim C1 fails on the code.  With a single fiducial pair for one qubit the design
  matrix has one row and three columns, so its rank is below the number of columns.  At
  each of the three inversion sites (stochastic stage of mode separate, Hamiltonian
  stage of mode separate, joint inversion of mode together) the run then stops with
  NameError for the name \_warnings, which the module never imports: no warning is
  raised, no pseudo-inverse is computed and no estimate is returned.
\<close>

theorem rank_deficient_run_raises_NameError:
  "do_idle_tomography (example_externals pinv) 1 constant_dataset [1, 2] ([], []) 1 [''Gi'']
      False True False
      (example_options\<lparr>opt_pauli_fidpairs :=
         Some [(\<lparr>rep = ''Z'', signs = [1]\<rparr>, \<lparr>rep = ''Z'', signs = [1]\<rparr>)]\<rparr>)
     = Inl (NameError ''_warnings'') \<and>
   do_idle_tomography (example_externals pinv) 1 constant_dataset [1, 2] ([], []) 1 [''Gi'']
      True False False
      (example_options\<lparr>opt_pauli_fidpairs :=
         Some [(\<lparr>rep = ''Z'', signs = [1]\<rparr>, \<lparr>rep = ''Y'', signs = [1]\<rparr>)]\<rparr>)
     = Inl (NameError ''_warnings'') \<and>
   do_idle_tomography (example_externals pinv) 1 constant_dataset [1, 2] ([], []) 1 [''Gi'']
      False True False
      (example_options\<lparr>opt_jacobian_mode := Some ''together'', opt_pauli_fidpairs :=
         Some [(\<lparr>rep = ''Z'', signs = [1]\<rparr>, \<lparr>rep = ''Z'', signs = [1]\<rparr>)]\<rparr>)
     = Inl (NameError ''_warnings'')"
  by (simp add: model_defs)

subsection \<open>The modes separate and together\<close>






lemma dot_zeros_right: "sum_list (map2 (*) (v :: real list) (replicate n 0)) = 0"
proof (induction v arbitrary: n)
  case Nil then show ?case by simp
next
  case (Cons a v) then show ?case by (cases n) simp_all
qed








































end
